theory Spec2Isabelle
  imports Complex_Main
begin

section \<open>Values exchanged with the caller\<close>

text \<open>
  Tool arguments arrive as a decoded JSON object, Go's \<open>map[string]interface{}\<close>.
  A JSON number decodes to a \<open>float64\<close>, kept here as the real number that the
  \<open>float64\<close> is.
\<close>

datatype json =
    JNull
  | JBool bool
  | JNumber real
  | JString string
  | JArray "json list"
  | JObject "(string \<times> json) list"

type_synonym args = "string \<rightharpoonup> json"

text \<open>The type assertions \<open>args[k].(string)\<close>, \<open>.(float64)\<close>, \<open>.([]interface{})\<close> and
  \<open>.(map[string]interface{})\<close>: a missing key yields the nil interface, on which every
  assertion fails.\<close>

fun as_string :: "json option \<Rightarrow> string option" where
  "as_string (Some (JString s)) = Some s"
| "as_string _ = None"

fun as_float64 :: "json option \<Rightarrow> real option" where
  "as_float64 (Some (JNumber x)) = Some x"
| "as_float64 _ = None"

fun as_array :: "json option \<Rightarrow> json list option" where
  "as_array (Some (JArray vs)) = Some vs"
| "as_array _ = None"

fun as_object :: "json option \<Rightarrow> (string \<times> json) list option" where
  "as_object (Some (JObject kvs)) = Some kvs"
| "as_object _ = None"

fun is_number :: "json \<Rightarrow> bool" where
  "is_number (JNumber x) = True"
| "is_number _ = False"

text \<open>
  The conversion \<open>int(l)\<close> of a \<open>float64\<close> truncates towards zero. For a value outside
  the range of the 64-bit \<open>int\<close> Go leaves the result to the implementation; the amd64
  compiler's conversion gives the smallest \<open>int\<close>, which is taken here.
\<close>

definition go_int :: "real \<Rightarrow> int" where
  "go_int x =
     (let t = (if 0 \<le> x then \<lfloor>x\<rfloor> else \<lceil>x\<rceil>)
      in if - (2 ^ 63) \<le> t \<and> t < 2 ^ 63 then t else - (2 ^ 63))"

text \<open>The sum of two \<open>int\<close> values on a 64-bit platform wraps around.\<close>

definition wrap64 :: "int \<Rightarrow> int" where
  "wrap64 x = (x + 2 ^ 63) mod 2 ^ 64 - 2 ^ 63"

subsection \<open>Errors and outcomes\<close>

text \<open>
  Every error of the program is made by \<open>fmt.Errorf\<close>; one constructor stands for each
  message, \<open>Wrapped\<close> for the \<open>%w\<close> wrapping of an underlying error, and \<open>Error\<close>
  gives the text that \<open>err.Error()\<close> returns.
\<close>

datatype error =
    Required string
  | AlreadyExists string
  | NotFound string
  | NotFoundCleanup string
  | UnsupportedType string
  | InvalidVectorValue nat
  | CollectionMissing string
  | DocumentNotFound string
  | External string
  | Wrapped string error

function show_nat :: "nat \<Rightarrow> string" where
  "show_nat n =
     (if n < 10 then [''0123456789'' ! n]
      else show_nat (n div 10) @ [''0123456789'' ! (n mod 10)])"
  by pat_completeness auto
termination
  by (relation "measure id") auto

definition show_int :: "int \<Rightarrow> string" where
  "show_int i = (if i < 0 then ''-'' @ show_nat (nat (- i)) else show_nat (nat i))"

definition quoted :: "string \<Rightarrow> string" where
  "quoted s = CHR 0x27 # s @ [CHR 0x27]"

primrec Error :: "error \<Rightarrow> string" where
  "Error (Required f) = f @ '' is required and must be a string''"
| "Error (AlreadyExists n) = ''vector database '' @ quoted n @ '' already exists''"
| "Error (NotFound n) = ''vector database '' @ quoted n @ '' not found. Please create it first''"
| "Error (NotFoundCleanup n) = ''vector database '' @ quoted n @ '' not found''"
| "Error (UnsupportedType t) = ''unsupported vector database type: '' @ t"
| "Error (InvalidVectorValue i) = ''invalid vector value at index '' @ show_nat i"
| "Error (CollectionMissing c) = ''collection '' @ quoted c @ '' does not exist''"
| "Error (DocumentNotFound d) = ''document '' @ quoted d @ '' not found''"
| "Error (External m) = m"
| "Error (Wrapped p e) = p @ '': '' @ Error e"

text \<open>
  A call returns a value, returns an error, or panics (a slice expression out of bounds,
  a negative capacity given to \<open>make\<close>, a nil dereference).
\<close>

datatype 'a result = Ok 'a | Err error | Panic string

subsection \<open>Documents\<close>

record Document =
  ID :: string
  URL :: string
  Text :: string
  Metadata :: "(string \<times> json) list"
  Vector :: "real list"

record SearchResult =
  Document :: Document
  Score :: real

record WriteStats =
  DocumentsWritten :: nat
  ProcessingTime :: string
  Errors :: "string list"

text \<open>
  The mock's \<open>Query\<close> answers with a text made of a header (the number of results and the
  query) and one line per result (rank, the first 100 bytes of the text, the score); the
  parts are kept apart here. The Weaviate placeholder answers with an empty object.
\<close>

datatype query_result =
    QueryText nat string "(nat \<times> string \<times> real) list"
  | QueryEmpty

record db_info =
  info_name :: string
  info_type :: string
  info_collection :: string
  info_document_count :: int

datatype tool_result =
    Message string
  | Databases "db_info list"
  | WriteResult WriteStats
  | QueryAnswer query_result
  | Documents "Document list" nat
  | CountResult int

section \<open>The capability interface and the server\<close>

text \<open>
  The Go interface \<open>VectorDatabase\<close>, as the methods the tool handlers call, over an
  implementation's state \<open>'db\<close>. A method that may change the implementation returns the
  new state; \<open>Query\<close>, \<open>ListDocuments\<close> and \<open>CountDocuments\<close> only read in every
  implementation of the repository. No handler calls \<open>WriteDocuments\<close>, \<open>Search\<close>,
  \<open>DeleteDocuments\<close>, \<open>ListCollections\<close>, \<open>GetCollectionInfo\<close> or \<open>DeleteCollection\<close>.

  A handler is one step from server state to server state: \<open>create_vector_database\<close> and
  \<open>cleanup\<close> hold the registry's write lock from their lookup to their return, the other
  handlers look the handle up under the read lock. The contexts with their timeouts and
  the log are left out.
\<close>

record 'db VectorDatabase =
  Type :: "'db \<Rightarrow> string"
  CollectionName :: "'db \<Rightarrow> string"
  Setup :: "'db \<Rightarrow> string \<Rightarrow> unit result \<times> 'db"
  WriteDocument :: "'db \<Rightarrow> Document \<Rightarrow> WriteStats result \<times> 'db"
  Query :: "'db \<Rightarrow> string \<Rightarrow> int \<Rightarrow> string \<Rightarrow> query_result result"
  ListDocuments :: "'db \<Rightarrow> int \<Rightarrow> int \<Rightarrow> Document list result"
  CountDocuments :: "'db \<Rightarrow> int result"
  DeleteDocument :: "'db \<Rightarrow> string \<Rightarrow> unit result \<times> 'db"
  Cleanup :: "'db \<Rightarrow> unit result \<times> 'db"

text \<open>
  The server's registry \<open>vectorDBs\<close> maps an instance name to a handle, a pointer to the
  implementation's object. The objects live in \<open>objects\<close>, the handle being the index;
  a new object is appended, so its handle is fresh.
\<close>

record 'db Server =
  vectorDBs :: "string \<rightharpoonup> nat"
  objects :: "'db list"

definition NewServer :: "'db Server" where
  "NewServer = \<lparr>vectorDBs = Map.empty, objects = []\<rparr>"

definition load :: "'db Server \<Rightarrow> nat \<Rightarrow> 'db option" where
  "load s h = (if h < length (objects s) then Some (objects s ! h) else None)"

definition store :: "'db Server \<Rightarrow> nat \<Rightarrow> 'db \<Rightarrow> 'db Server" where
  "store s h db = s\<lparr>objects := (objects s)[h := db]\<rparr>"

text \<open>Every registered handle points to an object.\<close>

definition wellformed :: "'db Server \<Rightarrow> bool" where
  "wellformed s = (\<forall>n h. vectorDBs s n = Some h \<longrightarrow> h < length (objects s))"

definition nil_dereference :: string where
  "nil_dereference = ''invalid memory address or nil pointer dereference''"

definition getDatabaseByName :: "'db Server \<Rightarrow> string \<Rightarrow> nat result" where
  "getDatabaseByName s dbName =
     (case vectorDBs s dbName of
        None \<Rightarrow> Err (NotFound dbName)
      | Some h \<Rightarrow> Ok h)"

subsection \<open>Tool handlers\<close>

type_synonym 'db handler = "'db Server \<Rightarrow> args \<Rightarrow> tool_result result \<times> 'db Server"

text \<open>The assignment \<open>s.vectorDBs[dbName] = db\<close> of a newly made object.\<close>

definition register :: "'db Server \<Rightarrow> string \<Rightarrow> 'db \<Rightarrow> 'db Server" where
  "register s dbName db =
     s\<lparr>vectorDBs := (vectorDBs s)(dbName \<mapsto> length (objects s)), objects := objects s @ [db]\<rparr>"

text \<open>
  \<open>handleCreateVectorDatabase\<close>; \<open>create\<close> is the factory \<open>vectordb.CreateVectorDatabase\<close>
  applied to the server's configuration.
\<close>

definition handleCreateVectorDatabase ::
  "(string \<Rightarrow> string \<Rightarrow> 'db result) \<Rightarrow> 'db handler" where
  "handleCreateVectorDatabase create s args =
     (case as_string (args ''db_name'') of
        None \<Rightarrow> (Err (Required ''db_name''), s)
      | Some dbName \<Rightarrow>
     (case as_string (args ''db_type'') of
        None \<Rightarrow> (Err (Required ''db_type''), s)
      | Some dbType \<Rightarrow>
     (let collectionName =
            (case as_string (args ''collection_name'') of
               None \<Rightarrow> ''MaestroDocs''
             | Some cn \<Rightarrow> cn)
      in if vectorDBs s dbName \<noteq> None then (Err (AlreadyExists dbName), s)
         else
           (case create dbType collectionName of
              Err e \<Rightarrow> (Err (Wrapped ''failed to create vector database'' e), s)
            | Panic p \<Rightarrow> (Panic p, s)
            | Ok db \<Rightarrow>
                (Ok (Message (''Successfully created '' @ dbType @ '' vector database ''
                              @ quoted dbName @ '' with collection '' @ quoted collectionName)),
                 register s dbName db)))))"

text \<open>
  \<open>handleListDatabases\<close>. Go ranges over the registry in an unspecified order; \<open>order\<close>
  is the order in which this call meets the registered names, so its length is
  \<open>len(s.vectorDBs)\<close>.
\<close>

fun list_entries :: "'db VectorDatabase \<Rightarrow> 'db Server \<Rightarrow> string list \<Rightarrow> db_info list result" where
  "list_entries B s [] = Ok []"
| "list_entries B s (dbName # rest) =
     (case vectorDBs s dbName of
        None \<Rightarrow> list_entries B s rest
      | Some h \<Rightarrow>
     (case load s h of
        None \<Rightarrow> Panic nil_dereference
      | Some db \<Rightarrow>
     (case CountDocuments B db of
        Panic p \<Rightarrow> Panic p
      | counted \<Rightarrow>
     (let count = (case counted of Ok c \<Rightarrow> c | _ \<Rightarrow> - 1)
      in case list_entries B s rest of
           Ok dbList \<Rightarrow>
             Ok (\<lparr>info_name = dbName, info_type = Type B db,
                  info_collection = CollectionName B db,
                  info_document_count = count\<rparr> # dbList)
         | other \<Rightarrow> other))))"

definition handleListDatabases :: "'db VectorDatabase \<Rightarrow> string list \<Rightarrow> 'db handler" where
  "handleListDatabases B order s args =
     (if order = [] then (Ok (Message ''No vector databases are currently active''), s)
      else
        (case list_entries B s order of
           Ok dbList \<Rightarrow> (Ok (Databases dbList), s)
         | Err e \<Rightarrow> (Err e, s)
         | Panic p \<Rightarrow> (Panic p, s)))"

definition handleSetupDatabase :: "'db VectorDatabase \<Rightarrow> 'db handler" where
  "handleSetupDatabase B s args =
     (case as_string (args ''db_name'') of
        None \<Rightarrow> (Err (Required ''db_name''), s)
      | Some dbName \<Rightarrow>
     (let embedding =
            (case as_string (args ''embedding'') of
               None \<Rightarrow> ''default''
             | Some emb \<Rightarrow> emb)
      in case getDatabaseByName s dbName of
           Err e \<Rightarrow> (Err e, s)
         | Panic p \<Rightarrow> (Panic p, s)
         | Ok h \<Rightarrow>
        (case load s h of
           None \<Rightarrow> (Panic nil_dereference, s)
         | Some db \<Rightarrow>
        (case Setup B db embedding of
           (Err e, db') \<Rightarrow> (Err (Wrapped ''failed to set up vector database'' e), store s h db')
         | (Panic p, db') \<Rightarrow> (Panic p, store s h db')
         | (Ok u, db') \<Rightarrow>
             (Ok (Message (''Successfully set up '' @ Type B db' @ '' vector database ''
                           @ quoted dbName @ '' with embedding '' @ quoted embedding)),
              store s h db')))))"

text \<open>The loop of \<open>handleWriteDocument\<close> over the elements of \<open>vector\<close>, from index \<open>i\<close>.\<close>

fun vector_loop :: "nat \<Rightarrow> json list \<Rightarrow> error + real list" where
  "vector_loop i [] = Inr []"
| "vector_loop i (v # vs) =
     (case as_float64 (Some v) of
        None \<Rightarrow> Inl (InvalidVectorValue i)
      | Some f \<Rightarrow>
          (case vector_loop (Suc i) vs of
             Inl e \<Rightarrow> Inl e
           | Inr fs \<Rightarrow> Inr (f # fs)))"

definition handleWriteDocument :: "'db VectorDatabase \<Rightarrow> 'db handler" where
  "handleWriteDocument B s args =
     (case as_string (args ''db_name'') of
        None \<Rightarrow> (Err (Required ''db_name''), s)
      | Some dbName \<Rightarrow>
     (case as_string (args ''url'') of
        None \<Rightarrow> (Err (Required ''url''), s)
      | Some url \<Rightarrow>
     (case as_string (args ''text'') of
        None \<Rightarrow> (Err (Required ''text''), s)
      | Some text \<Rightarrow>
     (case getDatabaseByName s dbName of
        Err e \<Rightarrow> (Err e, s)
      | Panic p \<Rightarrow> (Panic p, s)
      | Ok h \<Rightarrow>
     (let metadata = (case as_object (args ''metadata'') of None \<Rightarrow> [] | Some md \<Rightarrow> md)
      in case (case as_array (args ''vector'') of
                 None \<Rightarrow> Inr []
               | Some vector \<Rightarrow> vector_loop 0 vector) of
           Inl e \<Rightarrow> (Err e, s)
         | Inr vec \<Rightarrow>
        (case load s h of
           None \<Rightarrow> (Panic nil_dereference, s)
         | Some db \<Rightarrow>
        (case WriteDocument B db
                \<lparr>ID = [], URL = url, Text = text, Metadata = metadata, Vector = vec\<rparr> of
           (Err e, db') \<Rightarrow> (Err (Wrapped ''failed to write document'' e), store s h db')
         | (Panic p, db') \<Rightarrow> (Panic p, store s h db')
         | (Ok stats, db') \<Rightarrow> (Ok (WriteResult stats), store s h db'))))))))"

definition handleQuery :: "'db VectorDatabase \<Rightarrow> 'db handler" where
  "handleQuery B s args =
     (case as_string (args ''db_name'') of
        None \<Rightarrow> (Err (Required ''db_name''), s)
      | Some dbName \<Rightarrow>
     (case as_string (args ''query'') of
        None \<Rightarrow> (Err (Required ''query''), s)
      | Some query \<Rightarrow>
     (case getDatabaseByName s dbName of
        Err e \<Rightarrow> (Err e, s)
      | Panic p \<Rightarrow> (Panic p, s)
      | Ok h \<Rightarrow>
     (let limit = (case as_float64 (args ''limit'') of None \<Rightarrow> 5 | Some l \<Rightarrow> go_int l);
          collectionName = (case as_string (args ''collection_name'') of None \<Rightarrow> [] | Some cn \<Rightarrow> cn)
      in case load s h of
           None \<Rightarrow> (Panic nil_dereference, s)
         | Some db \<Rightarrow>
        (case Query B db query limit collectionName of
           Err e \<Rightarrow> (Err (Wrapped ''failed to query vector database'' e), s)
         | Panic p \<Rightarrow> (Panic p, s)
         | Ok answer \<Rightarrow> (Ok (QueryAnswer answer), s))))))"

definition handleListDocuments :: "'db VectorDatabase \<Rightarrow> 'db handler" where
  "handleListDocuments B s args =
     (case as_string (args ''db_name'') of
        None \<Rightarrow> (Err (Required ''db_name''), s)
      | Some dbName \<Rightarrow>
     (case getDatabaseByName s dbName of
        Err e \<Rightarrow> (Err e, s)
      | Panic p \<Rightarrow> (Panic p, s)
      | Ok h \<Rightarrow>
     (let limit = (case as_float64 (args ''limit'') of None \<Rightarrow> 10 | Some l \<Rightarrow> go_int l);
          offset = (case as_float64 (args ''offset'') of None \<Rightarrow> 0 | Some off \<Rightarrow> go_int off)
      in case load s h of
           None \<Rightarrow> (Panic nil_dereference, s)
         | Some db \<Rightarrow>
        (case ListDocuments B db limit offset of
           Err e \<Rightarrow> (Err (Wrapped ''failed to list documents'' e), s)
         | Panic p \<Rightarrow> (Panic p, s)
         | Ok documents \<Rightarrow> (Ok (Documents documents (length documents)), s)))))"

definition handleCountDocuments :: "'db VectorDatabase \<Rightarrow> 'db handler" where
  "handleCountDocuments B s args =
     (case as_string (args ''db_name'') of
        None \<Rightarrow> (Err (Required ''db_name''), s)
      | Some dbName \<Rightarrow>
     (case getDatabaseByName s dbName of
        Err e \<Rightarrow> (Err e, s)
      | Panic p \<Rightarrow> (Panic p, s)
      | Ok h \<Rightarrow>
     (case load s h of
        None \<Rightarrow> (Panic nil_dereference, s)
      | Some db \<Rightarrow>
     (case CountDocuments B db of
        Err e \<Rightarrow> (Err (Wrapped ''failed to count documents'' e), s)
      | Panic p \<Rightarrow> (Panic p, s)
      | Ok count \<Rightarrow> (Ok (CountResult count), s)))))"

definition handleDeleteDocument :: "'db VectorDatabase \<Rightarrow> 'db handler" where
  "handleDeleteDocument B s args =
     (case as_string (args ''db_name'') of
        None \<Rightarrow> (Err (Required ''db_name''), s)
      | Some dbName \<Rightarrow>
     (case as_string (args ''document_id'') of
        None \<Rightarrow> (Err (Required ''document_id''), s)
      | Some documentID \<Rightarrow>
     (case getDatabaseByName s dbName of
        Err e \<Rightarrow> (Err e, s)
      | Panic p \<Rightarrow> (Panic p, s)
      | Ok h \<Rightarrow>
     (case load s h of
        None \<Rightarrow> (Panic nil_dereference, s)
      | Some db \<Rightarrow>
     (case DeleteDocument B db documentID of
        (Err e, db') \<Rightarrow> (Err (Wrapped ''failed to delete document'' e), store s h db')
      | (Panic p, db') \<Rightarrow> (Panic p, store s h db')
      | (Ok u, db') \<Rightarrow>
          (Ok (Message (''Successfully deleted document '' @ quoted documentID
                        @ '' from vector database '' @ quoted dbName)),
           store s h db'))))))"

definition handleCleanup :: "'db VectorDatabase \<Rightarrow> 'db handler" where
  "handleCleanup B s args =
     (case as_string (args ''db_name'') of
        None \<Rightarrow> (Err (Required ''db_name''), s)
      | Some dbName \<Rightarrow>
     (case vectorDBs s dbName of
        None \<Rightarrow> (Err (NotFoundCleanup dbName), s)
      | Some h \<Rightarrow>
     (case load s h of
        None \<Rightarrow> (Panic nil_dereference, s)
      | Some db \<Rightarrow>
     (case Cleanup B db of
        (Err e, db') \<Rightarrow> (Err (Wrapped ''failed to cleanup vector database'' e), store s h db')
      | (Panic p, db') \<Rightarrow> (Panic p, store s h db')
      | (Ok u, db') \<Rightarrow>
          (Ok (Message (''Successfully cleaned up and removed vector database '' @ quoted dbName)),
           (store s h db')\<lparr>vectorDBs := (vectorDBs s)(dbName := None)\<rparr>)))))"

subsection \<open>Tool registry and dispatch\<close>

text \<open>
  \<open>registerTools\<close> fills the map \<open>Tools\<close> from tool name to tool; of a tool, the handler
  is kept.
\<close>

definition registerTools ::
  "'db VectorDatabase \<Rightarrow> (string \<Rightarrow> string \<Rightarrow> 'db result) \<Rightarrow> string list \<Rightarrow> string \<rightharpoonup> 'db handler" where
  "registerTools B create order =
     map_of
       [(''create_vector_database'', handleCreateVectorDatabase create),
        (''list_databases'', handleListDatabases B order),
        (''setup_database'', handleSetupDatabase B),
        (''write_document'', handleWriteDocument B),
        (''query'', handleQuery B),
        (''list_documents'', handleListDocuments B),
        (''count_documents'', handleCountDocuments B),
        (''delete_document'', handleDeleteDocument B),
        (''cleanup'', handleCleanup B)]"

subsection \<open>Decoding the body of a request\<close>

text \<open>
  \<open>json.NewDecoder(r.Body).Decode(&request)\<close> reads one JSON value from the front of the
  body and stores it in the request, a struct of a string \<open>Name\<close> (key \<open>name\<close>) and a map
  \<open>Arguments\<close> (key \<open>arguments\<close>). The decoder's scanner belongs to the library; a body is
  kept as what the scanner finds: the first JSON value of the body, or nothing where the
  bytes do not begin with a well-formed JSON value, and the bytes that follow that value.

  A value is kept as the scanner reads it, strings unquoted. Of a number literal it is
  kept what \<open>strconv.ParseFloat\<close> makes of it: the \<open>float64\<close>, or nothing where the literal
  is out of the range of \<open>float64\<close>.
\<close>

datatype jtext =
    TNull
  | TBool bool
  | TNumber "real option"
  | TString string
  | TArray "jtext list"
  | TObject "(string \<times> jtext) list"

record request_body =
  first_value :: "jtext option"
  trailing :: string

definition is_space :: "char \<Rightarrow> bool" where
  "is_space c = (c = CHR '' '' \<or> c = CHR 0x09 \<or> c = CHR 0x0A \<or> c = CHR 0x0D)"


text \<open>
  A value stored in an \<open>interface{}\<close>: an object becomes a map, an array a slice, a number
  a \<open>float64\<close>; a number out of range is an error of the decoding. (The members of an
  object are kept in their order; in the map a later member replaces an earlier one of
  the same key.)
\<close>

fun interface_value :: "jtext \<Rightarrow> json option"
  and interface_values :: "jtext list \<Rightarrow> json list option"
  and interface_members :: "(string \<times> jtext) list \<Rightarrow> (string \<times> json) list option" where
  "interface_value TNull = Some JNull"
| "interface_value (TBool b) = Some (JBool b)"
| "interface_value (TNumber None) = None"
| "interface_value (TNumber (Some x)) = Some (JNumber x)"
| "interface_value (TString str) = Some (JString str)"
| "interface_value (TArray vs) = map_option JArray (interface_values vs)"
| "interface_value (TObject members) = map_option JObject (interface_members members)"
| "interface_values [] = Some []"
| "interface_values (v # vs) =
     (case interface_value v of
        None \<Rightarrow> None
      | Some x \<Rightarrow> map_option ((#) x) (interface_values vs))"
| "interface_members [] = Some []"
| "interface_members ((key, v) # rest) =
     (case interface_value v of
        None \<Rightarrow> None
      | Some x \<Rightarrow> map_option ((#) (key, x)) (interface_members rest))"

text \<open>
  A key of the object names a field of the struct when the two are equal under Unicode
  case folding. The field names are lower-case ASCII, so a key names a field when its
  folded form is the field name: an upper-case ASCII letter folds to the lower-case one,
  the long s (bytes C5 BF) to \<open>s\<close> and the Kelvin sign (bytes E2 84 AA) to \<open>k\<close>.
\<close>

definition to_lower :: "char \<Rightarrow> char" where
  "to_lower c =
     (case map_of (zip ''ABCDEFGHIJKLMNOPQRSTUVWXYZ'' ''abcdefghijklmnopqrstuvwxyz'') c of
        None \<Rightarrow> c
      | Some l \<Rightarrow> l)"

function fold_name :: "string \<Rightarrow> string" where
  "fold_name [] = []"
| "fold_name (c # cs) =
     (if c = CHR 0xC5 \<and> take 1 cs = [CHR 0xBF] then CHR ''s'' # fold_name (drop 1 cs)
      else if c = CHR 0xE2 \<and> take 2 cs = [CHR 0x84, CHR 0xAA] then CHR ''k'' # fold_name (drop 2 cs)
      else to_lower c # fold_name cs)"
  by pat_completeness auto
termination
  by (relation "measure length") auto

text \<open>
  The members of the object, in their order, stored in the request \<open>(name, arguments)\<close>.
  A string sets \<open>Name\<close> and \<open>null\<close> leaves it; an object adds its members to \<open>Arguments\<close>
  and \<open>null\<close> empties it; any other value for either field is an error of the decoding,
  and a member that names no field is skipped.
\<close>

fun decode_members :: "(string \<times> jtext) list \<Rightarrow> string \<times> args \<Rightarrow> (string \<times> args) option" where
  "decode_members [] request = Some request"
| "decode_members ((key, v) # rest) (name, arguments) =
     (if fold_name key = ''name'' then
        (case v of
           TString str \<Rightarrow> decode_members rest (str, arguments)
         | TNull \<Rightarrow> decode_members rest (name, arguments)
         | _ \<Rightarrow> None)
      else if fold_name key = ''arguments'' then
        (case v of
           TObject members \<Rightarrow>
             (case interface_members members of
                None \<Rightarrow> None
              | Some kvs \<Rightarrow> decode_members rest (name, arguments ++ map_of (rev kvs)))
         | TNull \<Rightarrow> decode_members rest (name, Map.empty)
         | _ \<Rightarrow> None)
      else decode_members rest (name, arguments))"

fun composite :: "jtext \<Rightarrow> bool" where
  "composite (TArray vs) = True"
| "composite (TObject members) = True"
| "composite _ = False"

text \<open>
  \<open>Decode\<close>. The scanner ends an array or an object at its closing bracket and does not
  look at the bytes after it. It ends a literal, a number or a string at the next byte,
  which has to be white space (or the end of the body). The value is then stored in the
  request: \<open>null\<close> leaves the request empty, an object is stored member by member, and any
  other value is an error.
\<close>

definition Decode :: "request_body \<Rightarrow> error + string \<times> args" where
  "Decode b =
     (case first_value b of
        None \<Rightarrow> Inl (External ''invalid character'')
      | Some v \<Rightarrow>
          if \<not> composite v \<and> trailing b \<noteq> [] \<and> \<not> is_space (hd (trailing b))
          then Inl (External ''invalid character after top-level value'')
          else
            (case v of
               TNull \<Rightarrow> Inr ([], Map.empty)
             | TObject members \<Rightarrow>
                 (case decode_members members ([], Map.empty) of
                    None \<Rightarrow> Inl (External ''cannot unmarshal'')
                  | Some request \<Rightarrow> Inr request)
             | _ \<Rightarrow> Inl (External ''cannot unmarshal'')))"

text \<open>An HTTP request to \<open>/mcp/tools/call\<close>: its method and its body.\<close>

record http_request =
  http_method :: string
  http_body :: request_body

datatype response_body = PlainText string | ErrorObject string | ResultObject tool_result

record http_response =
  status :: nat
  body :: response_body

text \<open>\<open>http.Error\<close> writes the message followed by a newline.\<close>

definition http_Error :: "string \<Rightarrow> nat \<Rightarrow> http_response" where
  "http_Error msg code = \<lparr>status = code, body = PlainText (msg @ [CHR 0x0A])\<rparr>"

text \<open>
  \<open>handleToolCall\<close>. A handler that panics writes no response: the HTTP library recovers
  the panic and drops the connection.
\<close>

definition handleToolCall ::
  "'db VectorDatabase \<Rightarrow> (string \<Rightarrow> string \<Rightarrow> 'db result) \<Rightarrow> string list \<Rightarrow>
   'db Server \<Rightarrow> http_request \<Rightarrow> http_response option \<times> 'db Server" where
  "handleToolCall B create order s r =
     (if http_method r \<noteq> ''POST'' then (Some (http_Error ''Method not allowed'' 405), s)
      else
        (case Decode (http_body r) of
           Inl err \<Rightarrow> (Some (http_Error ''Invalid JSON'' 400), s)
         | Inr (name, arguments) \<Rightarrow>
        (case registerTools B create order name of
           None \<Rightarrow> (Some (http_Error (''Tool '' @ quoted name @ '' not found'') 404), s)
         | Some handler \<Rightarrow>
        (case handler s arguments of
           (Err e, s') \<Rightarrow> (Some \<lparr>status = 500, body = ErrorObject (Error e)\<rparr>, s')
         | (Panic p, s') \<Rightarrow> (None, s')
         | (Ok result, s') \<Rightarrow> (Some \<lparr>status = 200, body = ResultObject result\<rparr>, s')))))"

section \<open>The backends\<close>

subsection \<open>The mock client\<close>

text \<open>
  \<open>MockMilvusClient\<close> keeps a schema and a list of documents per collection.
\<close>

record MockMilvusClient =
  collections :: "string \<rightharpoonup> json"
  documents :: "string \<rightharpoonup> Document list"

definition NewMockMilvusClient :: MockMilvusClient where
  "NewMockMilvusClient = \<lparr>collections = Map.empty, documents = Map.empty\<rparr>"

text \<open>
  What a call reads from the clock: \<open>UnixNano i\<close> is \<open>time.Now().UnixNano()\<close> when
  \<open>Insert\<close> names its \<open>i\<close>-th document, \<open>Since\<close> the text of the elapsed time.
\<close>

record clock =
  UnixNano :: "nat \<Rightarrow> int"
  Since :: string

definition MockMilvusClient_Connect :: "MockMilvusClient \<Rightarrow> unit result" where
  "MockMilvusClient_Connect m = Ok ()"

definition MockMilvusClient_CreateCollection ::
  "MockMilvusClient \<Rightarrow> string \<Rightarrow> json \<Rightarrow> unit result \<times> MockMilvusClient" where
  "MockMilvusClient_CreateCollection m name schema =
     (Ok (), m\<lparr>collections := (collections m)(name \<mapsto> schema),
               documents := (documents m)(name \<mapsto> [])\<rparr>)"

fun assign_ids :: "clock \<Rightarrow> nat \<Rightarrow> Document list \<Rightarrow> Document list" where
  "assign_ids clk i [] = []"
| "assign_ids clk i (d # ds) =
     (if ID d = [] then d\<lparr>ID := ''doc_'' @ show_int (UnixNano clk i) @ ''_'' @ show_nat i\<rparr> else d)
     # assign_ids clk (Suc i) ds"

definition MockMilvusClient_Insert ::
  "clock \<Rightarrow> MockMilvusClient \<Rightarrow> string \<Rightarrow> Document list \<Rightarrow> unit result \<times> MockMilvusClient" where
  "MockMilvusClient_Insert clk m collectionName docs =
     (case documents m collectionName of
        None \<Rightarrow> (Err (CollectionMissing collectionName), m)
      | Some old \<Rightarrow>
          (Ok (), m\<lparr>documents := (documents m)(collectionName \<mapsto> old @ assign_ids clk 0 docs)\<rparr>))"

text \<open>
  The score \<open>0.9 - float64(i)*0.1\<close> in \<open>float64\<close> arithmetic: \<open>rnd\<close> rounds a real
  number to the \<open>float64\<close> that represents it.
\<close>

definition mock_score :: "(real \<Rightarrow> real) \<Rightarrow> nat \<Rightarrow> real" where
  "mock_score rnd i = rnd (rnd (9 / 10) - rnd (rnd (real i) * rnd (1 / 10)))"

fun search_loop :: "(real \<Rightarrow> real) \<Rightarrow> int \<Rightarrow> nat \<Rightarrow> Document list \<Rightarrow> SearchResult list" where
  "search_loop rnd limit i [] = []"
| "search_loop rnd limit i (doc # docs) =
     (if int i \<ge> limit then []
      else \<lparr>Document = doc, Score = mock_score rnd i\<rparr> # search_loop rnd limit (Suc i) docs)"

definition MockMilvusClient_Search ::
  "(real \<Rightarrow> real) \<Rightarrow> MockMilvusClient \<Rightarrow> string \<Rightarrow> string \<Rightarrow> int \<Rightarrow> SearchResult list result" where
  "MockMilvusClient_Search rnd m collectionName query limit =
     (case documents m collectionName of
        None \<Rightarrow> Err (CollectionMissing collectionName)
      | Some docs \<Rightarrow>
          if limit < 0 then Panic ''makeslice: cap out of range''
          else Ok (search_loop rnd limit 0 docs))"

fun response_lines :: "nat \<Rightarrow> SearchResult list \<Rightarrow> (nat \<times> string \<times> real) list" where
  "response_lines i [] = []"
| "response_lines i (r # rs) =
     (i + 1, take (min 100 (length (Text (Document r)))) (Text (Document r)), Score r)
     # response_lines (Suc i) rs"

definition MockMilvusClient_Query ::
  "(real \<Rightarrow> real) \<Rightarrow> MockMilvusClient \<Rightarrow> string \<Rightarrow> string \<Rightarrow> int \<Rightarrow> query_result result" where
  "MockMilvusClient_Query rnd m collectionName query limit =
     (case MockMilvusClient_Search rnd m collectionName query limit of
        Err e \<Rightarrow> Err e
      | Panic p \<Rightarrow> Panic p
      | Ok results \<Rightarrow> Ok (QueryText (length results) query (response_lines 0 results)))"

text \<open>The slice expression \<open>docs[lo:hi]\<close>, which panics unless \<open>0 \<le> lo \<le> hi \<le> len(docs)\<close>
  (the capacity is at least the length, and \<open>hi\<close> never exceeds the length where it is used).\<close>

definition slice :: "'a list \<Rightarrow> int \<Rightarrow> int \<Rightarrow> 'a list result" where
  "slice xs lo hi =
     (if 0 \<le> lo \<and> lo \<le> hi \<and> hi \<le> int (length xs)
      then Ok (take (nat hi - nat lo) (drop (nat lo) xs))
      else Panic ''slice bounds out of range'')"

definition MockMilvusClient_ListDocuments ::
  "MockMilvusClient \<Rightarrow> string \<Rightarrow> int \<Rightarrow> int \<Rightarrow> Document list result" where
  "MockMilvusClient_ListDocuments m collectionName limit offset =
     (case documents m collectionName of
        None \<Rightarrow> Err (CollectionMissing collectionName)
      | Some docs \<Rightarrow>
          (let start = offset;
               end0 = wrap64 (offset + limit)
           in if start \<ge> int (length docs) then Ok []
              else slice docs start (if end0 > int (length docs) then int (length docs) else end0)))"

definition MockMilvusClient_CountDocuments :: "MockMilvusClient \<Rightarrow> string \<Rightarrow> int result" where
  "MockMilvusClient_CountDocuments m collectionName =
     (case documents m collectionName of
        None \<Rightarrow> Err (CollectionMissing collectionName)
      | Some docs \<Rightarrow> Ok (int (length docs)))"

text \<open>The loop of \<open>DeleteDocument\<close>: the first document with the identifier is taken out.\<close>

fun delete_loop :: "string \<Rightarrow> Document list \<Rightarrow> Document list option" where
  "delete_loop documentID [] = None"
| "delete_loop documentID (doc # docs) =
     (if ID doc = documentID then Some docs
      else map_option ((#) doc) (delete_loop documentID docs))"

definition MockMilvusClient_DeleteDocument ::
  "MockMilvusClient \<Rightarrow> string \<Rightarrow> string \<Rightarrow> unit result \<times> MockMilvusClient" where
  "MockMilvusClient_DeleteDocument m collectionName documentID =
     (case documents m collectionName of
        None \<Rightarrow> (Err (CollectionMissing collectionName), m)
      | Some docs \<Rightarrow>
          (case delete_loop documentID docs of
             None \<Rightarrow> (Err (DocumentNotFound documentID), m)
           | Some docs' \<Rightarrow> (Ok (), m\<lparr>documents := (documents m)(collectionName \<mapsto> docs')\<rparr>)))"

definition MockMilvusClient_Close :: "MockMilvusClient \<Rightarrow> unit result" where
  "MockMilvusClient_Close m = Ok ()"

subsection \<open>The Milvus backend over the mock client\<close>

record MilvusDatabase =
  milvus_VectorSize :: int
  milvus_collectionName :: string
  milvus_client :: MockMilvusClient

definition NewMilvusDatabase :: "string \<Rightarrow> int \<Rightarrow> MilvusDatabase result" where
  "NewMilvusDatabase collectionName vectorSize =
     Ok \<lparr>milvus_VectorSize = vectorSize, milvus_collectionName = collectionName,
         milvus_client = NewMockMilvusClient\<rparr>"

definition milvus_schema :: "MilvusDatabase \<Rightarrow> string \<Rightarrow> json" where
  "milvus_schema m embedding =
     JObject
       [(''name'', JString (milvus_collectionName m)),
        (''fields'', JArray
           [JObject [(''name'', JString ''id''), (''type'', JString ''string''), (''primary'', JBool True)],
            JObject [(''name'', JString ''url''), (''type'', JString ''string'')],
            JObject [(''name'', JString ''text''), (''type'', JString ''string'')],
            JObject [(''name'', JString ''metadata''), (''type'', JString ''json'')],
            JObject [(''name'', JString ''vector''), (''type'', JString ''float_vector''),
                     (''dimension'', JNumber (of_int (milvus_VectorSize m)))]]),
        (''embedding'', JString embedding)]"

definition MilvusDatabase_Setup :: "MilvusDatabase \<Rightarrow> string \<Rightarrow> unit result \<times> MilvusDatabase" where
  "MilvusDatabase_Setup m embedding =
     (case MockMilvusClient_Connect (milvus_client m) of
        Err e \<Rightarrow> (Err (Wrapped ''failed to connect to Milvus'' e), m)
      | Panic p \<Rightarrow> (Panic p, m)
      | Ok u \<Rightarrow>
          (case MockMilvusClient_CreateCollection (milvus_client m) (milvus_collectionName m)
                  (milvus_schema m embedding) of
             (Err e, c) \<Rightarrow> (Err (Wrapped ''failed to create collection'' e), m\<lparr>milvus_client := c\<rparr>)
           | (Panic p, c) \<Rightarrow> (Panic p, m\<lparr>milvus_client := c\<rparr>)
           | (Ok u, c) \<Rightarrow> (Ok (), m\<lparr>milvus_client := c\<rparr>)))"

definition MilvusDatabase_WriteDocuments ::
  "clock \<Rightarrow> MilvusDatabase \<Rightarrow> Document list \<Rightarrow> WriteStats result \<times> MilvusDatabase" where
  "MilvusDatabase_WriteDocuments clk m docs =
     (case MockMilvusClient_Insert clk (milvus_client m) (milvus_collectionName m) docs of
        (Err e, c) \<Rightarrow> (Err (Wrapped ''failed to insert documents'' e), m\<lparr>milvus_client := c\<rparr>)
      | (Panic p, c) \<Rightarrow> (Panic p, m\<lparr>milvus_client := c\<rparr>)
      | (Ok u, c) \<Rightarrow>
          (Ok \<lparr>DocumentsWritten = length docs, ProcessingTime = Since clk, Errors = []\<rparr>,
           m\<lparr>milvus_client := c\<rparr>))"

definition MilvusDatabase_WriteDocument ::
  "clock \<Rightarrow> MilvusDatabase \<Rightarrow> Document \<Rightarrow> WriteStats result \<times> MilvusDatabase" where
  "MilvusDatabase_WriteDocument clk m doc =
     (case MilvusDatabase_WriteDocuments clk m [doc] of
        (Ok stats, m') \<Rightarrow> (Ok (stats\<lparr>ProcessingTime := Since clk\<rparr>), m')
      | other \<Rightarrow> other)"

definition MilvusDatabase_Query ::
  "(real \<Rightarrow> real) \<Rightarrow> MilvusDatabase \<Rightarrow> string \<Rightarrow> int \<Rightarrow> string \<Rightarrow> query_result result" where
  "MilvusDatabase_Query rnd m query limit collectionName =
     (case MockMilvusClient_Query rnd (milvus_client m)
             (if collectionName = [] then milvus_collectionName m else collectionName) query limit of
        Err e \<Rightarrow> Err (Wrapped ''failed to query Milvus'' e)
      | other \<Rightarrow> other)"

definition MilvusDatabase_Search ::
  "(real \<Rightarrow> real) \<Rightarrow> MilvusDatabase \<Rightarrow> string \<Rightarrow> int \<Rightarrow> string \<Rightarrow> SearchResult list result" where
  "MilvusDatabase_Search rnd m query limit collectionName =
     (case MockMilvusClient_Search rnd (milvus_client m)
             (if collectionName = [] then milvus_collectionName m else collectionName) query limit of
        Err e \<Rightarrow> Err (Wrapped ''failed to search Milvus'' e)
      | other \<Rightarrow> other)"

definition MilvusDatabase_ListDocuments :: "MilvusDatabase \<Rightarrow> int \<Rightarrow> int \<Rightarrow> Document list result" where
  "MilvusDatabase_ListDocuments m limit offset =
     (case MockMilvusClient_ListDocuments (milvus_client m) (milvus_collectionName m) limit offset of
        Err e \<Rightarrow> Err (Wrapped ''failed to list documents from Milvus'' e)
      | other \<Rightarrow> other)"

definition MilvusDatabase_CountDocuments :: "MilvusDatabase \<Rightarrow> int result" where
  "MilvusDatabase_CountDocuments m =
     (case MockMilvusClient_CountDocuments (milvus_client m) (milvus_collectionName m) of
        Err e \<Rightarrow> Err (Wrapped ''failed to count documents in Milvus'' e)
      | other \<Rightarrow> other)"

definition MilvusDatabase_DeleteDocument ::
  "MilvusDatabase \<Rightarrow> string \<Rightarrow> unit result \<times> MilvusDatabase" where
  "MilvusDatabase_DeleteDocument m documentID =
     (case MockMilvusClient_DeleteDocument (milvus_client m) (milvus_collectionName m) documentID of
        (Err e, c) \<Rightarrow> (Err (Wrapped ''failed to delete document from Milvus'' e), m\<lparr>milvus_client := c\<rparr>)
      | (r, c) \<Rightarrow> (r, m\<lparr>milvus_client := c\<rparr>))"

definition MilvusDatabase_Cleanup :: "MilvusDatabase \<Rightarrow> unit result \<times> MilvusDatabase" where
  "MilvusDatabase_Cleanup m =
     (case MockMilvusClient_Close (milvus_client m) of
        Err e \<Rightarrow> (Err (Wrapped ''failed to close Milvus client'' e), m)
      | other \<Rightarrow> (other, m))"

subsection \<open>The Weaviate backend over the Weaviate client\<close>

text \<open>
  The Weaviate service is reached through an external client library. Of the service,
  the names of the classes of its schema are kept, and whether it answers at all;
  \<open>ClassExistenceChecker\<close> and \<open>ClassCreator\<close> are the two calls \<open>Setup\<close> makes.
\<close>

record WeaviateService =
  classes :: "string list"
  reachable :: bool

definition ClassExistenceChecker :: "WeaviateService \<Rightarrow> string \<Rightarrow> bool result" where
  "ClassExistenceChecker c className =
     (if reachable c then Ok (className \<in> set (classes c)) else Err (External ''connection refused''))"

definition ClassCreator :: "WeaviateService \<Rightarrow> string \<Rightarrow> unit result \<times> WeaviateService" where
  "ClassCreator c className =
     (if \<not> reachable c then (Err (External ''connection refused''), c)
      else if className \<in> set (classes c) then (Err (External ''class already exists''), c)
      else (Ok (), c\<lparr>classes := className # classes c\<rparr>))"

record WeaviateDatabase =
  weaviate_collectionName :: string
  weaviate_client :: WeaviateService

definition NewWeaviateDatabase :: "string \<Rightarrow> WeaviateService \<Rightarrow> WeaviateDatabase result" where
  "NewWeaviateDatabase collectionName service =
     Ok \<lparr>weaviate_collectionName = collectionName, weaviate_client = service\<rparr>"

definition WeaviateDatabase_Setup :: "WeaviateDatabase \<Rightarrow> string \<Rightarrow> unit result \<times> WeaviateDatabase" where
  "WeaviateDatabase_Setup w embedding =
     (case ClassExistenceChecker (weaviate_client w) (weaviate_collectionName w) of
        Err e \<Rightarrow> (Err (Wrapped ''failed to check if class exists'' e), w)
      | Panic p \<Rightarrow> (Panic p, w)
      | Ok exists \<Rightarrow>
          if exists then (Ok (), w)
          else
            (case ClassCreator (weaviate_client w) (weaviate_collectionName w) of
               (Err e, c) \<Rightarrow> (Err (Wrapped ''failed to create class'' e), w\<lparr>weaviate_client := c\<rparr>)
             | (r, c) \<Rightarrow> (r, w\<lparr>weaviate_client := c\<rparr>)))"

text \<open>The other methods of this backend are placeholders that reach no storage.\<close>

definition WeaviateDatabase_WriteDocuments ::
  "clock \<Rightarrow> WeaviateDatabase \<Rightarrow> Document list \<Rightarrow> WriteStats result \<times> WeaviateDatabase" where
  "WeaviateDatabase_WriteDocuments clk w docs =
     (Ok \<lparr>DocumentsWritten = length docs, ProcessingTime = Since clk, Errors = []\<rparr>, w)"

definition WeaviateDatabase_WriteDocument ::
  "clock \<Rightarrow> WeaviateDatabase \<Rightarrow> Document \<Rightarrow> WriteStats result \<times> WeaviateDatabase" where
  "WeaviateDatabase_WriteDocument clk w doc =
     (case WeaviateDatabase_WriteDocuments clk w [doc] of
        (Ok stats, w') \<Rightarrow> (Ok (stats\<lparr>ProcessingTime := Since clk\<rparr>), w')
      | other \<Rightarrow> other)"

definition WeaviateDatabase_Query :: "WeaviateDatabase \<Rightarrow> string \<Rightarrow> int \<Rightarrow> string \<Rightarrow> query_result result" where
  "WeaviateDatabase_Query w query limit collectionName = Ok QueryEmpty"

definition WeaviateDatabase_Search :: "WeaviateDatabase \<Rightarrow> string \<Rightarrow> int \<Rightarrow> string \<Rightarrow> SearchResult list result" where
  "WeaviateDatabase_Search w query limit collectionName = Ok []"

definition WeaviateDatabase_ListDocuments :: "WeaviateDatabase \<Rightarrow> int \<Rightarrow> int \<Rightarrow> Document list result" where
  "WeaviateDatabase_ListDocuments w limit offset = Ok []"

definition WeaviateDatabase_CountDocuments :: "WeaviateDatabase \<Rightarrow> int result" where
  "WeaviateDatabase_CountDocuments w = Ok 0"

definition WeaviateDatabase_DeleteDocument :: "WeaviateDatabase \<Rightarrow> string \<Rightarrow> unit result \<times> WeaviateDatabase" where
  "WeaviateDatabase_DeleteDocument w documentID = (Ok (), w)"

definition WeaviateDatabase_Cleanup :: "WeaviateDatabase \<Rightarrow> unit result \<times> WeaviateDatabase" where
  "WeaviateDatabase_Cleanup w = (Ok (), w)"

subsection \<open>The factory and the dispatch of the interface\<close>

text \<open>
  The factory makes a Milvus backend, here the one over the mock client, or a Weaviate
  backend, here the one over the Weaviate client. (The repository also holds a Milvus
  backend over the official client, whose \<open>Setup\<close> checks \<open>HasCollection\<close> first and whose
  other methods are placeholders, and a Weaviate backend over a mock client.)
  Of the configuration: the embedding's vector size and the Weaviate service at the
  configured address.
\<close>

record Config =
  VectorSize :: int
  Weaviate :: WeaviateService

datatype Database = MilvusDB MilvusDatabase | WeaviateDB WeaviateDatabase

definition CreateVectorDatabase :: "Config \<Rightarrow> string \<Rightarrow> string \<Rightarrow> Database result" where
  "CreateVectorDatabase cfg dbType collectionName =
     (if dbType = ''milvus'' then
        (case NewMilvusDatabase collectionName (VectorSize cfg) of
           Ok m \<Rightarrow> Ok (MilvusDB m) | Err e \<Rightarrow> Err e | Panic p \<Rightarrow> Panic p)
      else if dbType = ''weaviate'' then
        (case NewWeaviateDatabase collectionName (Weaviate cfg) of
           Ok w \<Rightarrow> Ok (WeaviateDB w) | Err e \<Rightarrow> Err e | Panic p \<Rightarrow> Panic p)
      else Err (UnsupportedType dbType))"

text \<open>A method call on a \<open>VectorDatabase\<close> value runs the method of the value's type.\<close>

definition backends :: "clock \<Rightarrow> (real \<Rightarrow> real) \<Rightarrow> Database VectorDatabase" where
  "backends clk rnd =
     \<lparr>Type = (\<lambda>db. case db of MilvusDB m \<Rightarrow> ''milvus'' | WeaviateDB w \<Rightarrow> ''weaviate''),
      CollectionName =
        (\<lambda>db. case db of MilvusDB m \<Rightarrow> milvus_collectionName m
                        | WeaviateDB w \<Rightarrow> weaviate_collectionName w),
      Setup =
        (\<lambda>db embedding. case db of
             MilvusDB m \<Rightarrow> map_prod id MilvusDB (MilvusDatabase_Setup m embedding)
           | WeaviateDB w \<Rightarrow> map_prod id WeaviateDB (WeaviateDatabase_Setup w embedding)),
      WriteDocument =
        (\<lambda>db doc. case db of
             MilvusDB m \<Rightarrow> map_prod id MilvusDB (MilvusDatabase_WriteDocument clk m doc)
           | WeaviateDB w \<Rightarrow> map_prod id WeaviateDB (WeaviateDatabase_WriteDocument clk w doc)),
      Query =
        (\<lambda>db query limit collectionName. case db of
             MilvusDB m \<Rightarrow> MilvusDatabase_Query rnd m query limit collectionName
           | WeaviateDB w \<Rightarrow> WeaviateDatabase_Query w query limit collectionName),
      ListDocuments =
        (\<lambda>db limit offset. case db of
             MilvusDB m \<Rightarrow> MilvusDatabase_ListDocuments m limit offset
           | WeaviateDB w \<Rightarrow> WeaviateDatabase_ListDocuments w limit offset),
      CountDocuments =
        (\<lambda>db. case db of
             MilvusDB m \<Rightarrow> MilvusDatabase_CountDocuments m
           | WeaviateDB w \<Rightarrow> WeaviateDatabase_CountDocuments w),
      DeleteDocument =
        (\<lambda>db documentID. case db of
             MilvusDB m \<Rightarrow> map_prod id MilvusDB (MilvusDatabase_DeleteDocument m documentID)
           | WeaviateDB w \<Rightarrow> map_prod id WeaviateDB (WeaviateDatabase_DeleteDocument w documentID)),
      Cleanup =
        (\<lambda>db. case db of
             MilvusDB m \<Rightarrow> map_prod id MilvusDB (MilvusDatabase_Cleanup m)
           | WeaviateDB w \<Rightarrow> map_prod id WeaviateDB (WeaviateDatabase_Cleanup w))\<rparr>"

subsection \<open>Concrete inputs\<close>

text \<open>
  A clock, a rounding and a configuration, the two backends of the repository under them,
  and an implementation of the interface whose \<open>Cleanup\<close> fails; the theorems below are
  instantiated at these.
\<close>

definition clock0 :: clock where
  "clock0 = \<lparr>UnixNano = int, Since = ''1ms''\<rparr>"

definition config0 :: Config where
  "config0 = \<lparr>VectorSize = 4, Weaviate = \<lparr>classes = [], reachable = True\<rparr>\<rparr>"

definition backends0 :: "Database VectorDatabase" where
  "backends0 = backends clock0 id"

definition failing_cleanup :: "Database VectorDatabase" where
  "failing_cleanup = backends0\<lparr>Cleanup := \<lambda>db. (Err (External ''connection lost''), db)\<rparr>"

definition weaviate0 :: Database where
  "weaviate0 = WeaviateDB \<lparr>weaviate_collectionName = ''MaestroDocs'',
                           weaviate_client = \<lparr>classes = [], reachable = True\<rparr>\<rparr>"

text \<open>
  A Milvus backend as \<open>NewMilvusDatabase\<close> makes it, the same backend after \<open>Setup\<close> with
  given documents in its collection, two documents, a server with one instance \<open>db1\<close>, and
  a server with a Milvus instance not yet set up and a Weaviate instance.
\<close>

definition milvus_new :: MilvusDatabase where
  "milvus_new = \<lparr>milvus_VectorSize = 4, milvus_collectionName = ''MaestroDocs'',
                 milvus_client = NewMockMilvusClient\<rparr>"

definition milvus_holding :: "Document list \<Rightarrow> MilvusDatabase" where
  "milvus_holding docs =
     milvus_new\<lparr>milvus_client :=
       \<lparr>collections = [''MaestroDocs'' \<mapsto> milvus_schema milvus_new ''default''],
        documents = [''MaestroDocs'' \<mapsto> docs]\<rparr>\<rparr>"

definition hello :: Document where
  "hello = \<lparr>ID = ''doc_0_0'', URL = ''https://example.com/hello'', Text = ''hello world'',
            Metadata = [], Vector = []\<rparr>"

definition second :: Document where
  "second = \<lparr>ID = ''doc_1_0'', URL = ''https://example.com/second'', Text = ''second text'',
             Metadata = [], Vector = []\<rparr>"

definition serving :: "Database \<Rightarrow> Database Server" where
  "serving db = \<lparr>vectorDBs = [''db1'' \<mapsto> 0], objects = [db]\<rparr>"

definition two_instances :: "Database Server" where
  "two_instances =
     \<lparr>vectorDBs = [''db1'' \<mapsto> 0, ''db2'' \<mapsto> 1], objects = [MilvusDB milvus_new, weaviate0]\<rparr>"

section \<open>Properties of the instance registry\<close>

lemma create_supported:
  "kind = ''milvus'' \<or> kind = ''weaviate'' \<Longrightarrow> \<exists>db. CreateVectorDatabase cfg kind coll = Ok db"
  by (auto simp: CreateVectorDatabase_def NewMilvusDatabase_def NewWeaviateDatabase_def)

text \<open>
  Claim C1. For a name \<open>n\<close> that is not registered and a supported kind (\<open>milvus\<close> or
  \<open>weaviate\<close>), \<open>create_vector_database\<close> succeeds and the registry becomes the old one
  with \<open>n\<close> bound to one handle, which is fresh and points to the new object; a second
  \<open>create_vector_database\<close> with the same name, whatever its kind, fails with the
  already-exists error and leaves the whole server state, so the entry of \<open>n\<close>, as it was.
\<close>

theorem create_twice:
  assumes fresh: "vectorDBs s n = None"
    and kind: "kind = ''milvus'' \<or> kind = ''weaviate''"
    and a1: "args1 ''db_name'' = Some (JString n)" "args1 ''db_type'' = Some (JString kind)"
    and a2: "args2 ''db_name'' = Some (JString n)" "args2 ''db_type'' = Some (JString kind2)"
  shows "\<exists>msg db.
           handleCreateVectorDatabase (CreateVectorDatabase cfg) s args1 = (Ok (Message msg), register s n db)
         \<and> vectorDBs (register s n db) = (vectorDBs s)(n \<mapsto> length (objects s))
         \<and> load (register s n db) (length (objects s)) = Some db
         \<and> load s (length (objects s)) = None
         \<and> handleCreateVectorDatabase (CreateVectorDatabase cfg) (register s n db) args2 =
             (Err (AlreadyExists n), register s n db)"
proof -
  define coll where
    "coll = (case as_string (args1 ''collection_name'') of None \<Rightarrow> ''MaestroDocs'' | Some cn \<Rightarrow> cn)"
  from create_supported [OF kind] obtain db where db: "CreateVectorDatabase cfg kind coll = Ok db"
    by blast
  have first: "handleCreateVectorDatabase (CreateVectorDatabase cfg) s args1 =
      (Ok (Message (''Successfully created '' @ kind @ '' vector database '' @ quoted n
                    @ '' with collection '' @ quoted coll)), register s n db)"
    using fresh a1 db by (simp add: handleCreateVectorDatabase_def coll_def)
  have second: "handleCreateVectorDatabase (CreateVectorDatabase cfg) (register s n db) args2 =
      (Err (AlreadyExists n), register s n db)"
    using a2 by (simp add: handleCreateVectorDatabase_def register_def)
  show ?thesis
    using first second by (auto simp: load_def register_def)
qed

theorem create_twice_witness:
  "vectorDBs (NewServer :: Database Server) ''db1'' = None
   \<and> (\<exists>msg db.
         handleCreateVectorDatabase
           (CreateVectorDatabase \<lparr>VectorSize = 4, Weaviate = \<lparr>classes = [], reachable = True\<rparr>\<rparr>)
           NewServer [''db_name'' \<mapsto> JString ''db1'', ''db_type'' \<mapsto> JString ''weaviate''] =
           (Ok (Message msg), register NewServer ''db1'' db)
       \<and> handleCreateVectorDatabase
           (CreateVectorDatabase \<lparr>VectorSize = 4, Weaviate = \<lparr>classes = [], reachable = True\<rparr>\<rparr>)
           (register NewServer ''db1'' db)
           [''db_name'' \<mapsto> JString ''db1'', ''db_type'' \<mapsto> JString ''milvus''] =
           (Err (AlreadyExists ''db1''), register NewServer ''db1'' db))"
  using create_twice [of NewServer "''db1''" "''weaviate''"
      "[''db_name'' \<mapsto> JString ''db1'', ''db_type'' \<mapsto> JString ''weaviate'']"
      "[''db_name'' \<mapsto> JString ''db1'', ''db_type'' \<mapsto> JString ''milvus'']" "''milvus''"
      "\<lparr>VectorSize = 4, Weaviate = \<lparr>classes = [], reachable = True\<rparr>\<rparr>"]
  by (simp add: NewServer_def) blast

text \<open>
  Claim C2. The handler holds the registry's lock from the lookup to its return, so a
  call of \<open>cleanup\<close> is one step. For a registered \<open>n\<close> whose handle points to an object
  \<open>db\<close>: if the call succeeds then the backend's \<open>Cleanup\<close> has succeeded, \<open>n\<close> is no
  longer registered and looking \<open>n\<close> up fails with the not-found error; if the backend's
  \<open>Cleanup\<close> succeeds then the call succeeds and removes \<open>n\<close>; if the backend's
  \<open>Cleanup\<close> returns an error then the call fails with that error wrapped, the registry
  is as before and \<open>n\<close> still resolves to its handle.
\<close>

theorem cleanup_atomic:
  assumes reg: "vectorDBs s n = Some h" and obj: "load s h = Some db"
    and arg: "args ''db_name'' = Some (JString n)"
  shows "(\<forall>r s'. handleCleanup B s args = (Ok r, s') \<longrightarrow>
            (\<exists>u db'. Cleanup B db = (Ok u, db')) \<and> vectorDBs s' = (vectorDBs s)(n := None)
            \<and> getDatabaseByName s' n = Err (NotFound n))
       \<and> (\<forall>u db'. Cleanup B db = (Ok u, db') \<longrightarrow>
            (\<exists>r. handleCleanup B s args =
                   (Ok r, (store s h db')\<lparr>vectorDBs := (vectorDBs s)(n := None)\<rparr>)))
       \<and> (\<forall>e db'. Cleanup B db = (Err e, db') \<longrightarrow>
            handleCleanup B s args =
              (Err (Wrapped ''failed to cleanup vector database'' e), store s h db')
            \<and> vectorDBs (store s h db') = vectorDBs s
            \<and> getDatabaseByName (store s h db') n = Ok h)"
  using reg obj arg
  by (auto simp: handleCleanup_def getDatabaseByName_def store_def split: result.splits prod.splits)

lemma backends_Cleanup_weaviate: "Cleanup (backends clk rnd) (WeaviateDB w) = (Ok (), WeaviateDB w)"
  by (simp add: backends_def WeaviateDatabase_Cleanup_def)

theorem cleanup_atomic_witness:
  "vectorDBs (register NewServer ''db1'' weaviate0) ''db1'' = Some 0
   \<and> load (register NewServer ''db1'' weaviate0) 0 = Some weaviate0
   \<and> (\<exists>r s'. handleCleanup backends0 (register NewServer ''db1'' weaviate0)
                [''db_name'' \<mapsto> JString ''db1''] = (Ok r, s')
        \<and> vectorDBs s' ''db1'' = None)
   \<and> (\<exists>s'. handleCleanup failing_cleanup (register NewServer ''db1'' weaviate0)
                [''db_name'' \<mapsto> JString ''db1''] =
              (Err (Wrapped ''failed to cleanup vector database'' (External ''connection lost'')), s')
        \<and> getDatabaseByName s' ''db1'' = Ok 0)"
proof -
  let ?S = "register NewServer ''db1'' weaviate0"
  let ?A = "[''db_name'' \<mapsto> JString ''db1'']"
  have reg: "vectorDBs ?S ''db1'' = Some 0"
    by (simp add: register_def NewServer_def)
  have obj: "load ?S 0 = Some weaviate0"
    by (simp add: register_def NewServer_def load_def)
  have arg: "?A ''db_name'' = Some (JString ''db1'')"
    by simp
  have ok: "Cleanup backends0 weaviate0 = (Ok (), weaviate0)"
    by (simp add: backends0_def weaviate0_def backends_Cleanup_weaviate)
  have bad: "Cleanup failing_cleanup weaviate0 = (Err (External ''connection lost''), weaviate0)"
    by (simp add: failing_cleanup_def)
  from cleanup_atomic [of ?S "''db1''" 0 weaviate0 ?A backends0, OF reg obj arg] ok
  have 1: "\<exists>r s'. handleCleanup backends0 ?S ?A = (Ok r, s') \<and> vectorDBs s' ''db1'' = None"
    by fastforce
  from cleanup_atomic [of ?S "''db1''" 0 weaviate0 ?A failing_cleanup, OF reg obj arg] bad
  have 2: "\<exists>s'. handleCleanup failing_cleanup ?S ?A =
              (Err (Wrapped ''failed to cleanup vector database'' (External ''connection lost'')), s')
           \<and> getDatabaseByName s' ''db1'' = Ok 0"
    by blast
  from reg obj 1 2 show ?thesis by blast
qed

text \<open>What each handler does to the registry.\<close>

lemma frame_list: "handleListDatabases B order s args = (r, s') \<Longrightarrow> s' = s"
  by (auto simp: handleListDatabases_def split: if_splits result.splits)

lemma frame_setup: "handleSetupDatabase B s args = (r, s') \<Longrightarrow> vectorDBs s' = vectorDBs s"
  by (auto simp: handleSetupDatabase_def getDatabaseByName_def store_def Let_def
           split: option.splits result.splits prod.splits)

lemma frame_write: "handleWriteDocument B s args = (r, s') \<Longrightarrow> vectorDBs s' = vectorDBs s"
  by (auto simp: handleWriteDocument_def getDatabaseByName_def store_def Let_def
           split: option.splits result.splits prod.splits sum.splits)

lemma frame_query: "handleQuery B s args = (r, s') \<Longrightarrow> s' = s"
  by (auto simp: handleQuery_def getDatabaseByName_def Let_def
           split: option.splits result.splits)

lemma frame_list_documents: "handleListDocuments B s args = (r, s') \<Longrightarrow> s' = s"
  by (auto simp: handleListDocuments_def getDatabaseByName_def Let_def
           split: option.splits result.splits)

lemma frame_count: "handleCountDocuments B s args = (r, s') \<Longrightarrow> s' = s"
  by (auto simp: handleCountDocuments_def getDatabaseByName_def
           split: option.splits result.splits)

lemma frame_delete: "handleDeleteDocument B s args = (r, s') \<Longrightarrow> vectorDBs s' = vectorDBs s"
  by (auto simp: handleDeleteDocument_def getDatabaseByName_def store_def
           split: option.splits result.splits prod.splits)

lemma frame_create:
  "handleCreateVectorDatabase create s args = (r, s') \<Longrightarrow>
     (case r of
        Ok v \<Rightarrow> \<exists>n. as_string (args ''db_name'') = Some n \<and> vectorDBs s n = None
                  \<and> vectorDBs s' = (vectorDBs s)(n \<mapsto> length (objects s))
      | _ \<Rightarrow> s' = s)"
  by (auto simp: handleCreateVectorDatabase_def register_def Let_def
           split: option.splits result.splits if_splits)

lemma frame_cleanup:
  "handleCleanup B s args = (r, s') \<Longrightarrow>
     (case r of
        Ok v \<Rightarrow> \<exists>n. as_string (args ''db_name'') = Some n \<and> vectorDBs s n \<noteq> None
                  \<and> vectorDBs s' = (vectorDBs s)(n := None)
      | _ \<Rightarrow> vectorDBs s' = vectorDBs s)"
  by (auto simp: handleCleanup_def store_def
           split: option.splits result.splits prod.splits)

lemma registerTools_cases:
  assumes "registerTools B create order t = Some handler"
  obtains
      (c_create) "t = ''create_vector_database''" "handler = handleCreateVectorDatabase create"
    | (c_list) "t = ''list_databases''" "handler = handleListDatabases B order"
    | (c_setup) "t = ''setup_database''" "handler = handleSetupDatabase B"
    | (c_write) "t = ''write_document''" "handler = handleWriteDocument B"
    | (c_query) "t = ''query''" "handler = handleQuery B"
    | (c_listdocs) "t = ''list_documents''" "handler = handleListDocuments B"
    | (c_count) "t = ''count_documents''" "handler = handleCountDocuments B"
    | (c_delete) "t = ''delete_document''" "handler = handleDeleteDocument B"
    | (c_cleanup) "t = ''cleanup''" "handler = handleCleanup B"
  using assms by (auto simp: registerTools_def split: if_splits)

text \<open>
  Claim C10. Let a registered tool's handler run from state \<open>s\<close> to state \<open>s'\<close> with
  outcome \<open>r\<close>. A tool other than \<open>create_vector_database\<close> and \<open>cleanup\<close> leaves the
  registry as it was; so does every run that returns no value (an error, also the
  duplicate-name and unsupported-kind failures of create, or a panic); a successful
  create adds the requested name, which was absent, and changes no other entry; a
  successful cleanup removes the requested name, which was present, and changes no other
  entry.
\<close>

theorem registry_frame:
  assumes reg: "registerTools B create order t = Some handler"
    and run: "handler s args = (r, s')"
  shows "(t \<noteq> ''create_vector_database'' \<and> t \<noteq> ''cleanup'' \<longrightarrow> vectorDBs s' = vectorDBs s)
       \<and> ((\<forall>v. r \<noteq> Ok v) \<longrightarrow> vectorDBs s' = vectorDBs s)
       \<and> (t = ''create_vector_database'' \<longrightarrow> (\<forall>v. r = Ok v \<longrightarrow>
             (\<exists>n. as_string (args ''db_name'') = Some n \<and> vectorDBs s n = None
                  \<and> vectorDBs s' = (vectorDBs s)(n \<mapsto> length (objects s)))))
       \<and> (t = ''cleanup'' \<longrightarrow> (\<forall>v. r = Ok v \<longrightarrow>
             (\<exists>n. as_string (args ''db_name'') = Some n \<and> vectorDBs s n \<noteq> None
                  \<and> vectorDBs s' = (vectorDBs s)(n := None))))"
  using reg
proof (cases rule: registerTools_cases)
  case c_create
  with frame_create [of create s args r s'] run show ?thesis
    by (cases r) auto
next
  case c_list
  with frame_list [of B order s args r s'] run show ?thesis by auto
next
  case c_setup
  with frame_setup [of B s args r s'] run show ?thesis by auto
next
  case c_write
  with frame_write [of B s args r s'] run show ?thesis by auto
next
  case c_query
  with frame_query [of B s args r s'] run show ?thesis by auto
next
  case c_listdocs
  with frame_list_documents [of B s args r s'] run show ?thesis by auto
next
  case c_count
  with frame_count [of B s args r s'] run show ?thesis by auto
next
  case c_delete
  with frame_delete [of B s args r s'] run show ?thesis by auto
next
  case c_cleanup
  with frame_cleanup [of B s args r s'] run show ?thesis
    by (cases r) auto
qed

lemma registerTools_lookup:
  "registerTools B create order ''create_vector_database'' = Some (handleCreateVectorDatabase create)"
  "registerTools B create order ''count_documents'' = Some (handleCountDocuments B)"
  "registerTools B create order ''query'' = Some (handleQuery B)"
  "registerTools B create order ''cleanup'' = Some (handleCleanup B)"
  "registerTools B create order ''no_such_tool'' = None"
  by (simp_all add: registerTools_def)

lemma eval_create:
  "handleCreateVectorDatabase (CreateVectorDatabase config0) NewServer
     [''db_name'' \<mapsto> JString ''db1'', ''db_type'' \<mapsto> JString ''weaviate''] =
     (Ok (Message (''Successfully created weaviate vector database '' @ quoted ''db1''
                   @ '' with collection '' @ quoted ''MaestroDocs'')),
      register NewServer ''db1'' weaviate0)"
  by (simp add: handleCreateVectorDatabase_def CreateVectorDatabase_def NewWeaviateDatabase_def Let_def
        config0_def weaviate0_def NewServer_def)

lemma eval_cleanup:
  "handleCleanup backends0 (register NewServer ''db1'' weaviate0) [''db_name'' \<mapsto> JString ''db1''] =
     (Ok (Message (''Successfully cleaned up and removed vector database '' @ quoted ''db1'')),
      \<lparr>vectorDBs = Map.empty, objects = [weaviate0]\<rparr>)"
  by (simp add: handleCleanup_def register_def NewServer_def load_def store_def backends0_def
        weaviate0_def backends_Cleanup_weaviate)

lemma eval_count_unknown:
  "handleCountDocuments B NewServer [''db_name'' \<mapsto> JString ''ghost''] =
     (Err (NotFound ''ghost''), NewServer)"
  by (simp add: handleCountDocuments_def getDatabaseByName_def NewServer_def)


theorem registry_frame_witness:
  "vectorDBs (register NewServer ''db1'' weaviate0) = (vectorDBs NewServer)(''db1'' \<mapsto> 0)
   \<and> vectorDBs \<lparr>vectorDBs = Map.empty, objects = [weaviate0]\<rparr> =
       (vectorDBs (register NewServer ''db1'' weaviate0))(''db1'' := None)
   \<and> handleCountDocuments backends0 NewServer [''db_name'' \<mapsto> JString ''ghost''] =
       (Err (NotFound ''ghost''), NewServer)
   \<and> vectorDBs (snd (handleCountDocuments backends0 NewServer [''db_name'' \<mapsto> JString ''ghost''])) =
       vectorDBs (NewServer :: Database Server)"
proof -
  have 1: "vectorDBs (register NewServer ''db1'' weaviate0) = (vectorDBs NewServer)(''db1'' \<mapsto> 0)"
    using registry_frame [OF registerTools_lookup(1) eval_create]
    by (simp add: NewServer_def)
  have 2: "vectorDBs \<lparr>vectorDBs = Map.empty, objects = [weaviate0]\<rparr> =
       (vectorDBs (register NewServer ''db1'' weaviate0))(''db1'' := None)"
    using registry_frame [OF registerTools_lookup(4) eval_cleanup]
    by simp
  have 3: "vectorDBs (snd (handleCountDocuments backends0 NewServer [''db_name'' \<mapsto> JString ''ghost''])) =
       vectorDBs (NewServer :: Database Server)"
    using registry_frame [OF registerTools_lookup(2) eval_count_unknown]
    by (simp add: eval_count_unknown)
  from 1 2 3 eval_count_unknown show ?thesis by blast
qed

text \<open>
  The lookup of an unregistered name and the checks of the other required arguments: the
  outcome of each handler, the same for every implementation \<open>B\<close> of the interface.
\<close>

lemma unknown_name_outcome:
  assumes absent: "vectorDBs s n = None"
    and arg: "args ''db_name'' = Some (JString n)"
  shows "handleListDocuments B s args = (Err (NotFound n), s)
       \<and> handleCountDocuments B s args = (Err (NotFound n), s)
       \<and> handleSetupDatabase B s args = (Err (NotFound n), s)
       \<and> handleQuery B s args =
           (Err (if as_string (args ''query'') = None then Required ''query'' else NotFound n), s)
       \<and> handleDeleteDocument B s args =
           (Err (if as_string (args ''document_id'') = None then Required ''document_id''
                 else NotFound n), s)
       \<and> handleWriteDocument B s args =
           (Err (if as_string (args ''url'') = None then Required ''url''
                 else if as_string (args ''text'') = None then Required ''text''
                 else NotFound n), s)"
  using absent arg
  by (simp add: handleListDocuments_def handleCountDocuments_def handleSetupDatabase_def
        handleQuery_def handleDeleteDocument_def handleWriteDocument_def getDatabaseByName_def
      split: option.splits)

text \<open>
  Claim C3. Let \<open>n\<close> be a name that is not registered, never created or removed by a
  cleanup. Each operation that resolves an instance by name, called on \<open>n\<close> with the
  string arguments its schema requires (\<open>query\<close> for \<open>query\<close>, \<open>document_id\<close> for
  \<open>delete_document\<close>, \<open>url\<close> and \<open>text\<close> for \<open>write_document\<close>, none for the other three),
  fails with the not-found error of the lookup and leaves the server state as it was. The
  outcome is the same for every implementation \<open>B\<close> of the interface, also one whose
  every method panics, so no backend operation takes part in it.
\<close>

theorem unknown_name_not_found:
  assumes absent: "vectorDBs s n = None"
    and arg: "args ''db_name'' = Some (JString n)"
  shows "handleListDocuments B s args = (Err (NotFound n), s)
       \<and> handleCountDocuments B s args = (Err (NotFound n), s)
       \<and> handleSetupDatabase B s args = (Err (NotFound n), s)
       \<and> (\<forall>q. args ''query'' = Some (JString q) \<longrightarrow>
             handleQuery B s args = (Err (NotFound n), s))
       \<and> (\<forall>d. args ''document_id'' = Some (JString d) \<longrightarrow>
             handleDeleteDocument B s args = (Err (NotFound n), s))
       \<and> (\<forall>u t. args ''url'' = Some (JString u) \<and> args ''text'' = Some (JString t) \<longrightarrow>
             handleWriteDocument B s args = (Err (NotFound n), s))"
  using unknown_name_outcome [of s n args B, OF absent arg] by simp

theorem unknown_name_not_found_witness:
  "vectorDBs (NewServer :: Database Server) ''ghost'' = None
   \<and> handleListDocuments backends0 NewServer
        [''db_name'' \<mapsto> JString ''ghost'', ''query'' \<mapsto> JString ''hello'',
         ''document_id'' \<mapsto> JString ''doc_0_0'', ''url'' \<mapsto> JString ''u'', ''text'' \<mapsto> JString ''t''] =
       (Err (NotFound ''ghost''), NewServer)
   \<and> handleQuery backends0 NewServer
        [''db_name'' \<mapsto> JString ''ghost'', ''query'' \<mapsto> JString ''hello'',
         ''document_id'' \<mapsto> JString ''doc_0_0'', ''url'' \<mapsto> JString ''u'', ''text'' \<mapsto> JString ''t''] =
       (Err (NotFound ''ghost''), NewServer)
   \<and> handleDeleteDocument backends0 NewServer
        [''db_name'' \<mapsto> JString ''ghost'', ''query'' \<mapsto> JString ''hello'',
         ''document_id'' \<mapsto> JString ''doc_0_0'', ''url'' \<mapsto> JString ''u'', ''text'' \<mapsto> JString ''t''] =
       (Err (NotFound ''ghost''), NewServer)
   \<and> handleWriteDocument backends0 NewServer
        [''db_name'' \<mapsto> JString ''ghost'', ''query'' \<mapsto> JString ''hello'',
         ''document_id'' \<mapsto> JString ''doc_0_0'', ''url'' \<mapsto> JString ''u'', ''text'' \<mapsto> JString ''t''] =
       (Err (NotFound ''ghost''), NewServer)"
  using unknown_name_not_found [of NewServer "''ghost''"
      "[''db_name'' \<mapsto> JString ''ghost'', ''query'' \<mapsto> JString ''hello'',
        ''document_id'' \<mapsto> JString ''doc_0_0'', ''url'' \<mapsto> JString ''u'', ''text'' \<mapsto> JString ''t'']"
      backends0]
  by (simp add: NewServer_def)

text \<open>
  The states reached from \<open>NewServer\<close> by tool calls are well-formed, so a registered
  handle always points to an object.
\<close>

lemma wellformed_NewServer: "wellformed NewServer"
  by (simp add: wellformed_def NewServer_def)

lemma wellformed_load:
  "wellformed s \<Longrightarrow> vectorDBs s n = Some h \<Longrightarrow> \<exists>db. load s h = Some db"
  by (simp add: wellformed_def load_def)

lemma wellformed_store: "wellformed s \<Longrightarrow> wellformed (store s h db)"
  by (simp add: wellformed_def store_def)

lemma wellformed_register: "wellformed s \<Longrightarrow> wellformed (register s n db)"
  by (auto simp: wellformed_def register_def less_Suc_eq dest: spec)

lemma wellformed_objects:
  "wellformed s \<Longrightarrow> vectorDBs s' = vectorDBs s \<Longrightarrow> length (objects s') = length (objects s) \<Longrightarrow>
   wellformed s'"
  by (simp add: wellformed_def)

lemma objects_length:
  "handleSetupDatabase B s args = (r, s') \<Longrightarrow> length (objects s') = length (objects s)"
  "handleWriteDocument B s args = (r, s') \<Longrightarrow> length (objects s') = length (objects s)"
  "handleDeleteDocument B s args = (r, s') \<Longrightarrow> length (objects s') = length (objects s)"
  "handleCleanup B s args = (r, s') \<Longrightarrow> length (objects s') = length (objects s)"
  by (auto simp: handleSetupDatabase_def handleWriteDocument_def handleDeleteDocument_def
        handleCleanup_def getDatabaseByName_def store_def Let_def
      split: option.splits result.splits prod.splits sum.splits)

lemma handlers_keep_wellformed:
  assumes "registerTools B create order t = Some handler" "handler s args = (r, s')" "wellformed s"
  shows "wellformed s'"
  using assms(1)
proof (cases rule: registerTools_cases)
  case c_create
  with assms(2,3) show ?thesis
    by (auto simp: handleCreateVectorDatabase_def Let_def wellformed_register
             split: option.splits result.splits if_splits)
next
  case c_list
  with frame_list [of B order s args r s'] assms(2,3) show ?thesis by simp
next
  case c_setup
  with frame_setup [of B s args r s'] objects_length(1) [of B s args r s'] assms(2,3)
  show ?thesis by (auto intro: wellformed_objects)
next
  case c_write
  with frame_write [of B s args r s'] objects_length(2) [of B s args r s'] assms(2,3)
  show ?thesis by (auto intro: wellformed_objects)
next
  case c_query
  with frame_query [of B s args r s'] assms(2,3) show ?thesis by simp
next
  case c_listdocs
  with frame_list_documents [of B s args r s'] assms(2,3) show ?thesis by simp
next
  case c_count
  with frame_count [of B s args r s'] assms(2,3) show ?thesis by simp
next
  case c_delete
  with frame_delete [of B s args r s'] objects_length(3) [of B s args r s'] assms(2,3)
  show ?thesis by (auto intro: wellformed_objects)
next
  case c_cleanup
  with assms(2) have run: "handleCleanup B s args = (r, s')" by simp
  from objects_length(4) [OF run] have len: "length (objects s') = length (objects s)" .
  from frame_cleanup [OF run] have "\<forall>n h. vectorDBs s' n = Some h \<longrightarrow> vectorDBs s n = Some h"
    by (cases r) (auto split: if_splits)
  with assms(3) len show ?thesis by (auto simp: wellformed_def)
qed

section \<open>Properties of the handlers' argument checks and of the dispatch\<close>

lemma vector_loop_first_bad:
  "\<exists>v\<in>set vs. \<not> is_number v \<Longrightarrow>
   \<exists>j<length vs. vector_loop i vs = Inl (InvalidVectorValue (i + j))
      \<and> \<not> is_number (vs ! j) \<and> (\<forall>k<j. is_number (vs ! k))"
proof (induction vs arbitrary: i)
  case Nil
  then show ?case by simp
next
  case (Cons v vs)
  show ?case
  proof (cases "is_number v")
    case False
    then have "vector_loop i (v # vs) = Inl (InvalidVectorValue i)"
      by (cases v) auto
    with False show ?thesis by (intro exI [of _ 0]) simp
  next
    case True
    then obtain x where x: "v = JNumber x" by (cases v) auto
    from True Cons.prems have "\<exists>v\<in>set vs. \<not> is_number v" by auto
    from Cons.IH [OF this, of "Suc i"] obtain j where j: "j < length vs"
      "vector_loop (Suc i) vs = Inl (InvalidVectorValue (Suc i + j))"
      "\<not> is_number (vs ! j)" "\<forall>k<j. is_number (vs ! k)" by blast
    have "\<forall>k<Suc j. is_number ((v # vs) ! k)"
      using True j(4) by (auto simp: nth_Cons split: nat.splits)
    with j x show ?thesis
      by (intro exI [of _ "Suc j"]) simp
  qed
qed

lemma write_bad_vector:
  assumes "as_array (args ''vector'') = Some vs" "vector_loop 0 vs = Inl e"
  shows "handleWriteDocument B s args =
           (Err (if as_string (args ''db_name'') = None then Required ''db_name''
                 else if as_string (args ''url'') = None then Required ''url''
                 else if as_string (args ''text'') = None then Required ''text''
                 else if vectorDBs s (the (as_string (args ''db_name''))) = None
                   then NotFound (the (as_string (args ''db_name'')))
                 else e), s)"
  using assms
  by (simp add: handleWriteDocument_def getDatabaseByName_def split: option.splits)

text \<open>
  Claim C8, as amended. A \<open>write_document\<close> call whose \<open>vector\<close> is an array with an
  element that is not a number fails, whatever the implementation \<open>B\<close>, and leaves the
  server state as it was, so no document is written. When \<open>db_name\<close>, \<open>url\<close> and \<open>text\<close>
  are strings and \<open>db_name\<close> is registered, the error is the invalid-vector-value error
  naming the index of the first element that is not a number.
\<close>

theorem malformed_vector_aborts:
  assumes vec: "args ''vector'' = Some (JArray vs)"
    and bad: "\<exists>v\<in>set vs. \<not> is_number v"
  shows "(\<exists>e. handleWriteDocument B s args = (Err e, s))
       \<and> (\<forall>n url text h.
            args ''db_name'' = Some (JString n) \<and> args ''url'' = Some (JString url)
            \<and> args ''text'' = Some (JString text) \<and> vectorDBs s n = Some h \<longrightarrow>
            (\<exists>j<length vs. handleWriteDocument B s args = (Err (InvalidVectorValue j), s)
               \<and> \<not> is_number (vs ! j) \<and> (\<forall>k<j. is_number (vs ! k))))"
proof (intro conjI allI impI)
  from vector_loop_first_bad [OF bad, of 0] obtain j where j: "j < length vs"
    "vector_loop 0 vs = Inl (InvalidVectorValue j)"
    "\<not> is_number (vs ! j)" "\<forall>k<j. is_number (vs ! k)" by auto
  from vec have arr: "as_array (args ''vector'') = Some vs" by simp
  note run = write_bad_vector [of args vs "InvalidVectorValue j" B s, OF arr j(2)]
  show "\<exists>e. handleWriteDocument B s args = (Err e, s)"
    by (subst run) (rule exI, rule refl)
  fix n url content h
  assume pre: "args ''db_name'' = Some (JString n) \<and> args ''url'' = Some (JString url)
            \<and> args ''text'' = Some (JString content) \<and> vectorDBs s n = Some h"
  have res: "handleWriteDocument B s args = (Err (InvalidVectorValue j), s)"
    by (subst run) (simp add: pre)
  show "\<exists>j<length vs. handleWriteDocument B s args = (Err (InvalidVectorValue j), s)
               \<and> \<not> is_number (vs ! j) \<and> (\<forall>k<j. is_number (vs ! k))"
    by (rule exI [of _ j]) (simp add: res j(1,3,4))
qed

theorem malformed_vector_aborts_witness:
  "(\<exists>v\<in>set [JNumber 1, JString ''x'', JNull]. \<not> is_number v)
   \<and> vectorDBs (register NewServer ''db1'' weaviate0) ''db1'' = Some 0
   \<and> handleWriteDocument backends0 (register NewServer ''db1'' weaviate0)
        [''db_name'' \<mapsto> JString ''db1'', ''url'' \<mapsto> JString ''u'', ''text'' \<mapsto> JString ''t'',
         ''vector'' \<mapsto> JArray [JNumber 1, JString ''x'', JNull]] =
       (Err (InvalidVectorValue 1), register NewServer ''db1'' weaviate0)"
proof -
  let ?S = "register NewServer ''db1'' weaviate0"
  let ?vs = "[JNumber 1, JString ''x'', JNull]"
  let ?A = "[''db_name'' \<mapsto> JString ''db1'', ''url'' \<mapsto> JString ''u'', ''text'' \<mapsto> JString ''t'',
             ''vector'' \<mapsto> JArray ?vs]"
  have bad: "\<exists>v\<in>set ?vs. \<not> is_number v" by simp
  have reg: "vectorDBs ?S ''db1'' = Some 0" by (simp add: register_def NewServer_def)
  have vec: "?A ''vector'' = Some (JArray ?vs)" by simp
  from malformed_vector_aborts [of ?A ?vs backends0 ?S, OF vec bad] reg
  obtain j where j: "j < 3" "handleWriteDocument backends0 ?S ?A = (Err (InvalidVectorValue j), ?S)"
    "\<not> is_number (?vs ! j)" "\<forall>k<j. is_number (?vs ! k)"
    by fastforce
  from j(1,3,4) have "j = 1"
    by (cases j) (auto simp: nth_Cons split: nat.splits)
  with j(2) bad reg show ?thesis by simp
qed

text \<open>
  The claim as stated fails: on a name that is not registered the lookup comes before the
  check of the vector, and the call returns the not-found error, which names no index.
\<close>

theorem malformed_vector_counterexample:
  "handleWriteDocument backends0 NewServer
     [''db_name'' \<mapsto> JString ''ghost'', ''url'' \<mapsto> JString ''u'', ''text'' \<mapsto> JString ''t'',
      ''vector'' \<mapsto> JArray [JString ''x'']] = (Err (NotFound ''ghost''), NewServer)
   \<and> NotFound ''ghost'' \<noteq> InvalidVectorValue 0"
  by (simp add: handleWriteDocument_def getDatabaseByName_def NewServer_def)



lemma decode_bodies:
  "Decode \<lparr>first_value = Some (TObject [(''name'', TString ''list_databases'')]), trailing = ''x''\<rparr> =
     Inr (''list_databases'', Map.empty)"
  "Decode \<lparr>first_value = Some (TObject [(''name'', TString ''no_such_tool''),
                                          (''arguments'', TObject [])]), trailing = []\<rparr> =
     Inr (''no_such_tool'', Map.empty)"
  "Decode \<lparr>first_value = Some (TObject
              [(''name'', TString ''query''),
               (''arguments'', TObject [(''db_name'', TString ''ghost''),
                                        (''query'', TString ''hello'')])]), trailing = []\<rparr> =
     Inr (''query'', [''db_name'' \<mapsto> JString ''ghost'', ''query'' \<mapsto> JString ''hello''])"
  "Decode \<lparr>first_value = Some (TObject
              [(''name'', TString ''create_vector_database''),
               (''arguments'', TObject [(''db_name'', TString ''db1''),
                                        (''db_type'', TString ''weaviate'')])]), trailing = []\<rparr> =
     Inr (''create_vector_database'', [''db_name'' \<mapsto> JString ''db1'', ''db_type'' \<mapsto> JString ''weaviate''])"
  "Decode \<lparr>first_value = Some (TObject
              [(''name'', TString ''list_documents''),
               (''arguments'', TObject [(''db_name'', TString ''db1''),
                                        (''offset'', TNumber (Some (- 1)))])]), trailing = []\<rparr> =
     Inr (''list_documents'', [''db_name'' \<mapsto> JString ''db1'', ''offset'' \<mapsto> JNumber (- 1)])"
  by (simp_all add: Decode_def to_lower_def)






section \<open>Properties of search and listing\<close>

lemma mock_score_antimono:
  assumes "mono rnd" "rnd 0 = 0" "i \<le> j"
  shows "mock_score rnd j \<le> mock_score rnd i"
proof -
  have c: "0 \<le> rnd (1 / 10)"
    using monoD [OF assms(1), of 0 "1 / 10"] assms(2) by simp
  have "rnd (real i) \<le> rnd (real j)"
    using assms(1,3) by (simp add: monoD)
  then have "rnd (real i) * rnd (1 / 10) \<le> rnd (real j) * rnd (1 / 10)"
    using c by (rule mult_right_mono)
  then have "rnd (rnd (real i) * rnd (1 / 10)) \<le> rnd (rnd (real j) * rnd (1 / 10))"
    using assms(1) by (simp add: monoD)
  then have "rnd (9 / 10) - rnd (rnd (real j) * rnd (1 / 10))
           \<le> rnd (9 / 10) - rnd (rnd (real i) * rnd (1 / 10))"
    by simp
  then show ?thesis
    unfolding mock_score_def using assms(1) by (rule monoD [rotated])
qed

lemma search_loop_scores:
  "r \<in> set (search_loop rnd L i docs) \<Longrightarrow> \<exists>k\<ge>i. Score r = mock_score rnd k"
proof (induction docs arbitrary: i)
  case Nil
  then show ?case by simp
next
  case (Cons d docs)
  show ?case
  proof (cases "L \<le> int i")
    case True
    with Cons.prems show ?thesis by simp
  next
    case False
    with Cons.prems consider "r = \<lparr>Document = d, Score = mock_score rnd i\<rparr>"
      | "r \<in> set (search_loop rnd L (Suc i) docs)" by auto
    then show ?thesis
    proof cases
      case 1
      then show ?thesis by auto
    next
      case 2
      from Cons.IH [OF this] obtain k where "Suc i \<le> k" "Score r = mock_score rnd k" by blast
      then show ?thesis by (intro exI [of _ k]) simp
    qed
  qed
qed

lemma search_loop_sorted:
  assumes "mono rnd" "rnd 0 = 0"
  shows "sorted_wrt (\<lambda>a b. Score b \<le> Score a) (search_loop rnd L i docs)"
proof (induction docs arbitrary: i)
  case Nil
  then show ?case by simp
next
  case (Cons d docs)
  have "Score r \<le> mock_score rnd i" if "r \<in> set (search_loop rnd L (Suc i) docs)" for r
  proof -
    from search_loop_scores [OF that] obtain k where "Suc i \<le> k" "Score r = mock_score rnd k"
      by blast
    with mock_score_antimono [OF assms, of i k] show ?thesis by simp
  qed
  with Cons.IH [of "Suc i"] show ?case by simp
qed

lemma search_loop_length:
  "int (length (search_loop rnd L i docs)) \<le> max 0 (L - int i)"
proof (induction docs arbitrary: i)
  case Nil
  then show ?case by simp
next
  case (Cons d docs)
  from Cons.IH [of "Suc i"] show ?case by (auto simp: max_def)
qed

lemma response_lines_scores: "map (snd \<circ> snd) (response_lines i rs) = map Score rs"
  by (induction rs arbitrary: i) auto

lemma response_lines_length: "length (response_lines i rs) = length rs"
  by (induction rs arbitrary: i) auto

lemma mock_search_ordered:
  assumes "mono rnd" "rnd 0 = 0"
    and "MockMilvusClient_Search rnd c coll query L = Ok rs"
  shows "sorted_wrt (\<lambda>a b. Score b \<le> Score a) rs \<and> int (length rs) \<le> L"
proof -
  from assms(3) obtain docs where L: "0 \<le> L" and rs: "rs = search_loop rnd L 0 docs"
    by (auto simp: MockMilvusClient_Search_def split: option.splits if_splits)
  from search_loop_length [of rnd L 0 docs] L have "int (length rs) \<le> L"
    by (simp add: rs)
  with search_loop_sorted [OF assms(1,2)] rs show ?thesis by simp
qed

lemma mock_query_ordered:
  assumes "mono rnd" "rnd 0 = 0"
    and "MockMilvusClient_Query rnd c coll query L = Ok (QueryText k q lines)"
  shows "sorted_wrt (\<lambda>a b. b \<le> a) (map (snd \<circ> snd) lines) \<and> int (length lines) \<le> L
         \<and> k = length lines"
proof -
  from assms(3) obtain rs where rs: "MockMilvusClient_Search rnd c coll query L = Ok rs"
    and lines: "lines = response_lines 0 rs" and k: "k = length rs"
    by (auto simp: MockMilvusClient_Query_def split: result.splits)
  from mock_search_ordered [OF assms(1,2) rs]
  have "sorted_wrt (\<lambda>a b. b \<le> a) (map Score rs)" "int (length rs) \<le> L"
    by (simp_all add: sorted_wrt_map)
  then show ?thesis
    by (simp add: lines k response_lines_scores response_lines_length)
qed

lemma backends_Query:
  "Query (backends clk rnd) (MilvusDB m) = MilvusDatabase_Query rnd m"
  "Query (backends clk rnd) (WeaviateDB w) = WeaviateDatabase_Query w"
  by (simp_all add: backends_def)

text \<open>
  Claim C6. With \<open>float64\<close> rounding monotone and exact at zero, every search of the
  mock client that returns results, called with limit \<open>L\<close>, returns them in
  non-increasing order of score and returns at most \<open>L\<close> of them; so do the backend's
  \<open>Search\<close> and \<open>Query\<close> over it, and the \<open>query\<close> tool, whose limit is the \<open>limit\<close>
  argument, 5 by default.
\<close>

theorem search_results_ordered:
  assumes rnd: "mono rnd" "rnd 0 = 0"
  shows "(\<forall>rs. MockMilvusClient_Search rnd c coll query L = Ok rs \<longrightarrow>
            sorted_wrt (\<lambda>a b. Score b \<le> Score a) rs \<and> int (length rs) \<le> L)
       \<and> (\<forall>rs. MilvusDatabase_Search rnd m query L coll = Ok rs \<longrightarrow>
            sorted_wrt (\<lambda>a b. Score b \<le> Score a) rs \<and> int (length rs) \<le> L)
       \<and> (\<forall>k q lines. MilvusDatabase_Query rnd m query L coll = Ok (QueryText k q lines) \<longrightarrow>
            sorted_wrt (\<lambda>a b. b \<le> a) (map (snd \<circ> snd) lines) \<and> int (length lines) \<le> L)
       \<and> (\<forall>k q lines s'.
            handleQuery (backends clk rnd) s args = (Ok (QueryAnswer (QueryText k q lines)), s') \<longrightarrow>
            sorted_wrt (\<lambda>a b. b \<le> a) (map (snd \<circ> snd) lines)
            \<and> int (length lines) \<le> (case as_float64 (args ''limit'') of None \<Rightarrow> 5 | Some l \<Rightarrow> go_int l))"
proof (intro conjI allI impI)
  fix rs assume "MockMilvusClient_Search rnd c coll query L = Ok rs"
  from mock_search_ordered [OF rnd this]
  show "sorted_wrt (\<lambda>a b. Score b \<le> Score a) rs" "int (length rs) \<le> L" by simp_all
next
  fix rs assume "MilvusDatabase_Search rnd m query L coll = Ok rs"
  then have "MockMilvusClient_Search rnd (milvus_client m)
               (if coll = [] then milvus_collectionName m else coll) query L = Ok rs"
    by (auto simp: MilvusDatabase_Search_def split: result.splits)
  from mock_search_ordered [OF rnd this]
  show "sorted_wrt (\<lambda>a b. Score b \<le> Score a) rs" "int (length rs) \<le> L" by simp_all
next
  fix k q lines assume "MilvusDatabase_Query rnd m query L coll = Ok (QueryText k q lines)"
  then have "MockMilvusClient_Query rnd (milvus_client m)
               (if coll = [] then milvus_collectionName m else coll) query L =
             Ok (QueryText k q lines)"
    by (auto simp: MilvusDatabase_Query_def split: result.splits)
  from mock_query_ordered [OF rnd this]
  show "sorted_wrt (\<lambda>a b. b \<le> a) (map (snd \<circ> snd) lines)" "int (length lines) \<le> L" by simp_all
next
  fix k q lines s'
  assume run: "handleQuery (backends clk rnd) s args = (Ok (QueryAnswer (QueryText k q lines)), s')"
  define L' where "L' = (case as_float64 (args ''limit'') of None \<Rightarrow> 5 | Some l \<Rightarrow> go_int l)"
  from run obtain db query' coll' where
    "Query (backends clk rnd) db query' L' coll' = Ok (QueryText k q lines)"
    by (auto simp: handleQuery_def Let_def L'_def split: option.splits result.splits)
  then have "sorted_wrt (\<lambda>a b. b \<le> a) (map (snd \<circ> snd) lines) \<and> int (length lines) \<le> L'"
  proof (cases db)
    case (MilvusDB m')
    with \<open>Query (backends clk rnd) db query' L' coll' = Ok (QueryText k q lines)\<close>
    have "MockMilvusClient_Query rnd (milvus_client m')
            (if coll' = [] then milvus_collectionName m' else coll') query' L' =
          Ok (QueryText k q lines)"
      by (auto simp: backends_Query MilvusDatabase_Query_def split: result.splits)
    from mock_query_ordered [OF rnd this] show ?thesis by simp
  next
    case (WeaviateDB w)
    assume "Query (backends clk rnd) db query' L' coll' = Ok (QueryText k q lines)"
    with WeaviateDB show ?thesis
      by (simp add: backends_Query WeaviateDatabase_Query_def)
  qed
  then show "sorted_wrt (\<lambda>a b. b \<le> a) (map (snd \<circ> snd) lines)"
    "int (length lines) \<le> (case as_float64 (args ''limit'') of None \<Rightarrow> 5 | Some l \<Rightarrow> go_int l)"
    by (simp_all add: L'_def)
qed

text \<open>Evaluation of the backend and of the handlers at the concrete inputs.\<close>

lemma milvus_holding_sel:
  "milvus_collectionName (milvus_holding docs) = ''MaestroDocs''"
  "milvus_VectorSize (milvus_holding docs) = 4"
  "documents (milvus_client (milvus_holding docs)) ''MaestroDocs'' = Some docs"
  "milvus_collectionName milvus_new = ''MaestroDocs''"
  by (simp_all add: milvus_holding_def milvus_new_def)

lemma milvus_schema_holding:
  "milvus_schema (milvus_holding docs) embedding = milvus_schema milvus_new embedding"
  by (simp add: milvus_schema_def milvus_holding_def)

lemma Setup_new: "MilvusDatabase_Setup milvus_new ''default'' = (Ok (), milvus_holding [])"
  by (simp add: MilvusDatabase_Setup_def MockMilvusClient_Connect_def
        MockMilvusClient_CreateCollection_def milvus_holding_def milvus_new_def
        NewMockMilvusClient_def)

lemma Setup_holding:
  "MilvusDatabase_Setup (milvus_holding docs) ''default'' = (Ok (), milvus_holding [])"
  by (simp add: MilvusDatabase_Setup_def MockMilvusClient_Connect_def
        MockMilvusClient_CreateCollection_def milvus_schema_holding)
     (simp add: milvus_holding_def milvus_new_def)

lemma Count_holding:
  "MilvusDatabase_CountDocuments (milvus_holding docs) = Ok (int (length docs))"
  by (simp add: MilvusDatabase_CountDocuments_def MockMilvusClient_CountDocuments_def
        milvus_holding_sel)

lemma show_zero: "show_nat 0 = ''0''" "show_int 0 = ''0''"
  by (simp_all add: show_int_def)

lemma Write_holding:
  "MilvusDatabase_WriteDocument clock0 (milvus_holding docs) (d\<lparr>ID := []\<rparr>) =
     (Ok \<lparr>DocumentsWritten = 1, ProcessingTime = ''1ms'', Errors = []\<rparr>,
      milvus_holding (docs @ [d\<lparr>ID := ''doc_0_0''\<rparr>]))"
  by (simp add: MilvusDatabase_WriteDocument_def MilvusDatabase_WriteDocuments_def
        MockMilvusClient_Insert_def milvus_holding_sel clock0_def show_zero)
     (simp add: milvus_holding_def)

lemma List_holding:
  "MilvusDatabase_ListDocuments (milvus_holding docs) limit offset =
     (if int (length docs) \<le> offset then Ok []
      else slice docs offset (if int (length docs) < wrap64 (offset + limit) then int (length docs)
                              else wrap64 (offset + limit)))"
  by (simp add: MilvusDatabase_ListDocuments_def MockMilvusClient_ListDocuments_def
        milvus_holding_sel Let_def slice_def)

lemma Search_holding:
  "MilvusDatabase_Search rnd (milvus_holding docs) q L [] =
     (if L < 0 then Panic ''makeslice: cap out of range'' else Ok (search_loop rnd L 0 docs))"
  by (simp add: MilvusDatabase_Search_def MockMilvusClient_Search_def milvus_holding_sel)

lemma Query_holding:
  "MilvusDatabase_Query rnd (milvus_holding docs) q L [] =
     (if L < 0 then Panic ''makeslice: cap out of range''
      else Ok (QueryText (length (search_loop rnd L 0 docs)) q
                 (response_lines 0 (search_loop rnd L 0 docs))))"
  by (simp add: MilvusDatabase_Query_def MockMilvusClient_Query_def MockMilvusClient_Search_def
        milvus_holding_sel)

lemma backends_milvus:
  "Type (backends clk rnd) (MilvusDB m) = ''milvus''"
  "Setup (backends clk rnd) (MilvusDB m) e = map_prod id MilvusDB (MilvusDatabase_Setup m e)"
  "WriteDocument (backends clk rnd) (MilvusDB m) d =
     map_prod id MilvusDB (MilvusDatabase_WriteDocument clk m d)"
  "ListDocuments (backends clk rnd) (MilvusDB m) = MilvusDatabase_ListDocuments m"
  "CountDocuments (backends clk rnd) (MilvusDB m) = MilvusDatabase_CountDocuments m"
  by (simp_all add: backends_def)

lemma serving_sel:
  "vectorDBs (serving db) ''db1'' = Some 0"
  "load (serving db) 0 = Some db"
  "store (serving db) 0 db' = serving db'"
  "getDatabaseByName (serving db) ''db1'' = Ok 0"
  by (simp_all add: serving_def load_def store_def getDatabaseByName_def)

lemma eval_create_milvus:
  "handleCreateVectorDatabase (CreateVectorDatabase config0) NewServer
     [''db_name'' \<mapsto> JString ''db1'', ''db_type'' \<mapsto> JString ''milvus''] =
     (Ok (Message (''Successfully created milvus vector database '' @ quoted ''db1''
                   @ '' with collection '' @ quoted ''MaestroDocs'')),
      serving (MilvusDB milvus_new))"
  by (simp add: handleCreateVectorDatabase_def CreateVectorDatabase_def NewMilvusDatabase_def
        config0_def milvus_new_def NewServer_def Let_def register_def serving_def)

lemma eval_setup_new:
  "handleSetupDatabase backends0 (serving (MilvusDB milvus_new)) [''db_name'' \<mapsto> JString ''db1''] =
     (Ok (Message (''Successfully set up milvus vector database '' @ quoted ''db1''
                   @ '' with embedding '' @ quoted ''default'')),
      serving (MilvusDB (milvus_holding [])))"
  by (simp add: handleSetupDatabase_def serving_sel backends0_def backends_milvus Setup_new)

lemma eval_setup_holding:
  "handleSetupDatabase backends0 (serving (MilvusDB (milvus_holding docs)))
     [''db_name'' \<mapsto> JString ''db1''] =
     (Ok (Message (''Successfully set up milvus vector database '' @ quoted ''db1''
                   @ '' with embedding '' @ quoted ''default'')),
      serving (MilvusDB (milvus_holding [])))"
  by (simp add: handleSetupDatabase_def serving_sel backends0_def backends_milvus Setup_holding)

lemma eval_count_holding:
  "handleCountDocuments backends0 (serving (MilvusDB (milvus_holding docs)))
     [''db_name'' \<mapsto> JString ''db1''] =
     (Ok (CountResult (int (length docs))), serving (MilvusDB (milvus_holding docs)))"
  by (simp add: handleCountDocuments_def serving_sel backends0_def backends_milvus Count_holding)

lemma eval_write_hello:
  "handleWriteDocument backends0 (serving (MilvusDB (milvus_holding [])))
     [''db_name'' \<mapsto> JString ''db1'', ''url'' \<mapsto> JString ''https://example.com/hello'',
      ''text'' \<mapsto> JString ''hello world''] =
     (Ok (WriteResult \<lparr>DocumentsWritten = 1, ProcessingTime = ''1ms'', Errors = []\<rparr>),
      serving (MilvusDB (milvus_holding [hello])))"
  using Write_holding [of "[]" hello]
  by (simp add: handleWriteDocument_def serving_sel backends0_def backends_milvus hello_def)

lemma score_id: "mock_score id 0 = 9 / 10" "mock_score id (Suc 0) = 4 / 5"
  unfolding mock_score_def by simp_all

lemma search_loop_two:
  "search_loop id 2 0 (a # b # rest) =
     [\<lparr>Document = a, Score = 9 / 10\<rparr>, \<lparr>Document = b, Score = 4 / 5\<rparr>]"
proof -
  have "search_loop id 2 (Suc (Suc 0)) rest = []"
    by (cases rest) simp_all
  then show ?thesis
    by (simp only: search_loop.simps)
       (simp add: score_id del: divide_eq_eq_numeral1 eq_divide_eq_numeral1)
qed

theorem search_results_ordered_witness:
  "mono (id :: real \<Rightarrow> real) \<and> id (0 :: real) = 0
   \<and> MilvusDatabase_Search id (milvus_holding [hello, second, hello]) ''world'' 2 [] =
       Ok [\<lparr>Document = hello, Score = 9 / 10\<rparr>, \<lparr>Document = second, Score = 4 / 5\<rparr>]
   \<and> sorted_wrt (\<lambda>a b. Score b \<le> Score a)
         [\<lparr>Document = hello, Score = 9 / 10\<rparr>, \<lparr>Document = second, Score = 4 / 5\<rparr>]
   \<and> int (length [\<lparr>Document = hello, Score = 9 / 10\<rparr>, \<lparr>Document = second, Score = 4 / 5\<rparr>]) \<le> 2
   \<and> handleQuery (backends clock0 id) (serving (MilvusDB (milvus_holding [hello, second, hello])))
         [''db_name'' \<mapsto> JString ''db1'', ''query'' \<mapsto> JString ''world'', ''limit'' \<mapsto> JNumber 2] =
       (Ok (QueryAnswer (QueryText 2 ''world''
              [(1, ''hello world'', 9 / 10), (2, ''second text'', 4 / 5)])),
        serving (MilvusDB (milvus_holding [hello, second, hello])))
   \<and> sorted_wrt (\<lambda>a b. b \<le> a)
         (map (snd \<circ> snd) [(1 :: nat, ''hello world'', 9 / 10 :: real), (2, ''second text'', 4 / 5)])"
proof -
  let ?m = "milvus_holding [hello, second, hello]"
  let ?rs = "[\<lparr>Document = hello, Score = 9 / 10\<rparr>, \<lparr>Document = second, Score = 4 / 5\<rparr>]"
  let ?A = "[''db_name'' \<mapsto> JString ''db1'', ''query'' \<mapsto> JString ''world'', ''limit'' \<mapsto> JNumber 2]"
  let ?lines = "[(1 :: nat, ''hello world'', 9 / 10 :: real), (2, ''second text'', 4 / 5)]"
  have rnd: "mono (id :: real \<Rightarrow> real)" "id (0 :: real) = 0"
    by (simp_all add: mono_def)
  have search: "MilvusDatabase_Search id ?m ''world'' 2 [] = Ok ?rs"
    by (simp add: Search_holding search_loop_two del: search_loop.simps)
  have query: "handleQuery (backends clock0 id) (serving (MilvusDB ?m)) ?A =
      (Ok (QueryAnswer (QueryText 2 ''world'' ?lines)), serving (MilvusDB ?m))"
    by (simp add: handleQuery_def serving_sel backends_Query Query_holding search_loop_two
          go_int_def hello_def second_def del: search_loop.simps)
  note inst = search_results_ordered [OF rnd, of NewMockMilvusClient "[]" "''world''" 2 ?m
      clock0 "serving (MilvusDB ?m)" ?A]
  from inst search have 1: "sorted_wrt (\<lambda>a b. Score b \<le> Score a) ?rs \<and> int (length ?rs) \<le> 2"
    by blast
  from inst query have 2: "sorted_wrt (\<lambda>a b. b \<le> a) (map (snd \<circ> snd) ?lines)"
    by blast
  from rnd search query 1 2 show ?thesis by blast
qed

text \<open>
  Claim C4 fails on the Milvus backend over the mock client. A server is made, an
  instance \<open>db1\<close> of kind \<open>milvus\<close> is created and set up, and one document is written:
  the count is 1. A second \<open>setup_database\<close> succeeds, and leaves the collection empty:
  the count is 0.
\<close>

theorem setup_again_empties_collection:
  "handleCreateVectorDatabase (CreateVectorDatabase config0) NewServer
     [''db_name'' \<mapsto> JString ''db1'', ''db_type'' \<mapsto> JString ''milvus''] =
     (Ok (Message (''Successfully created milvus vector database '' @ quoted ''db1''
                   @ '' with collection '' @ quoted ''MaestroDocs'')),
      serving (MilvusDB milvus_new))
   \<and> handleSetupDatabase backends0 (serving (MilvusDB milvus_new)) [''db_name'' \<mapsto> JString ''db1''] =
     (Ok (Message (''Successfully set up milvus vector database '' @ quoted ''db1''
                   @ '' with embedding '' @ quoted ''default'')),
      serving (MilvusDB (milvus_holding [])))
   \<and> handleWriteDocument backends0 (serving (MilvusDB (milvus_holding [])))
     [''db_name'' \<mapsto> JString ''db1'', ''url'' \<mapsto> JString ''https://example.com/hello'',
      ''text'' \<mapsto> JString ''hello world''] =
     (Ok (WriteResult \<lparr>DocumentsWritten = 1, ProcessingTime = ''1ms'', Errors = []\<rparr>),
      serving (MilvusDB (milvus_holding [hello])))
   \<and> handleCountDocuments backends0 (serving (MilvusDB (milvus_holding [hello])))
     [''db_name'' \<mapsto> JString ''db1''] =
     (Ok (CountResult 1), serving (MilvusDB (milvus_holding [hello])))
   \<and> handleSetupDatabase backends0 (serving (MilvusDB (milvus_holding [hello])))
     [''db_name'' \<mapsto> JString ''db1''] =
     (Ok (Message (''Successfully set up milvus vector database '' @ quoted ''db1''
                   @ '' with embedding '' @ quoted ''default'')),
      serving (MilvusDB (milvus_holding [])))
   \<and> handleCountDocuments backends0 (serving (MilvusDB (milvus_holding [])))
     [''db_name'' \<mapsto> JString ''db1''] =
     (Ok (CountResult 0), serving (MilvusDB (milvus_holding [])))"
  using eval_create_milvus eval_setup_new eval_write_hello eval_count_holding [of "[hello]"]
    eval_setup_holding [of "[hello]"] eval_count_holding [of "[]"]
  by simp

text \<open>The same in general: after \<open>Setup\<close> the backend's collection is empty, whatever it held.\<close>

lemma milvus_setup_resets:
  "\<exists>m'. MilvusDatabase_Setup m embedding = (Ok (), m')
      \<and> documents (milvus_client m') (milvus_collectionName m') = Some []"
  by (simp add: MilvusDatabase_Setup_def MockMilvusClient_Connect_def
        MockMilvusClient_CreateCollection_def)

text \<open>The Weaviate backend checks first: where the class exists, \<open>Setup\<close> changes nothing.\<close>

lemma weaviate_setup_noop:
  "reachable (weaviate_client w) \<Longrightarrow> weaviate_collectionName w \<in> set (classes (weaviate_client w)) \<Longrightarrow>
   WeaviateDatabase_Setup w embedding = (Ok (), w)"
  by (simp add: WeaviateDatabase_Setup_def ClassExistenceChecker_def)

text \<open>
  Claim C5 fails on a negative offset. With one document stored, \<open>list_documents\<close> with
  \<open>offset = -1\<close> (and the default limit) reaches the slice expression \<open>docs[-1:1]\<close> and
  panics; the tool call writes no response.
\<close>

theorem list_documents_negative_offset:
  "handleListDocuments backends0 (serving (MilvusDB (milvus_holding [hello])))
     [''db_name'' \<mapsto> JString ''db1'', ''offset'' \<mapsto> JNumber (- 1)] =
     (Panic ''slice bounds out of range'', serving (MilvusDB (milvus_holding [hello])))
   \<and> handleToolCall backends0 (CreateVectorDatabase config0) [''db1'']
        (serving (MilvusDB (milvus_holding [hello])))
        \<lparr>http_method = ''POST'',
         http_body =
           \<lparr>first_value = Some (TObject
              [(''name'', TString ''list_documents''),
               (''arguments'', TObject [(''db_name'', TString ''db1''),
                                        (''offset'', TNumber (Some (- 1)))])]),
            trailing = []\<rparr>\<rparr> =
     (None, serving (MilvusDB (milvus_holding [hello])))"
proof -
  have w: "wrap64 9 = 9" by (simp add: wrap64_def)
  have run: "handleListDocuments backends0 (serving (MilvusDB (milvus_holding [hello])))
     [''db_name'' \<mapsto> JString ''db1'', ''offset'' \<mapsto> JNumber (- 1)] =
     (Panic ''slice bounds out of range'', serving (MilvusDB (milvus_holding [hello])))"
    by (simp add: handleListDocuments_def serving_sel backends0_def backends_milvus List_holding
          go_int_def w slice_def)
  have tool: "registerTools backends0 (CreateVectorDatabase config0) [''db1''] ''list_documents'' =
      Some (handleListDocuments backends0)"
    by (simp add: registerTools_def)
  show ?thesis
    by (simp add: run handleToolCall_def tool decode_bodies)
qed

text \<open>Where limit and offset are not negative and their sum does not overflow, the mock
  returns the documents from \<open>offset\<close> on, at most \<open>limit\<close> of them.\<close>

lemma list_documents_in_range:
  assumes "documents c coll = Some docs" "0 \<le> offset" "0 \<le> limit" "offset + limit < 2 ^ 63"
  shows "MockMilvusClient_ListDocuments c coll limit offset = Ok (take (nat limit) (drop (nat offset) docs))"
proof -
  have w: "wrap64 (offset + limit) = offset + limit"
    using assms(2-4) by (simp add: wrap64_def)
  show ?thesis
  proof (cases "int (length docs) \<le> offset")
    case True
    with assms show ?thesis by (simp add: MockMilvusClient_ListDocuments_def Let_def)
  next
    case False
    with assms w show ?thesis
      by (auto simp: MockMilvusClient_ListDocuments_def Let_def slice_def min_def
               intro!: arg_cong2 [where f = take])
  qed
qed

section \<open>Properties of the database listing\<close>

lemma list_entries_no_error: "list_entries B s order \<noteq> Err e"
  by (induction order) (auto simp: Let_def split: option.splits result.splits)

lemma list_entries_ok:
  assumes "\<forall>n\<in>set order. \<exists>h db. vectorDBs s n = Some h \<and> load s h = Some db
              \<and> (\<forall>p. CountDocuments B db \<noteq> Panic p)"
  shows "\<exists>dbList. list_entries B s order = Ok dbList \<and> map info_name dbList = order
           \<and> (\<forall>entry\<in>set dbList. \<exists>h db.
                 vectorDBs s (info_name entry) = Some h \<and> load s h = Some db
                 \<and> info_type entry = Type B db \<and> info_collection entry = CollectionName B db
                 \<and> info_document_count entry =
                     (case CountDocuments B db of Ok c \<Rightarrow> c | _ \<Rightarrow> - 1))"
  using assms
proof (induction order)
  case Nil
  then show ?case by simp
next
  case (Cons n order)
  from Cons.prems obtain h db where n: "vectorDBs s n = Some h" "load s h = Some db"
    "\<forall>p. CountDocuments B db \<noteq> Panic p" by auto
  from Cons.prems have "\<forall>n\<in>set order. \<exists>h db. vectorDBs s n = Some h \<and> load s h = Some db
              \<and> (\<forall>p. CountDocuments B db \<noteq> Panic p)" by simp
  from Cons.IH [OF this] obtain dbList where rest: "list_entries B s order = Ok dbList"
    "map info_name dbList = order"
    "\<forall>entry\<in>set dbList. \<exists>h db.
        vectorDBs s (info_name entry) = Some h \<and> load s h = Some db
        \<and> info_type entry = Type B db \<and> info_collection entry = CollectionName B db
        \<and> info_document_count entry = (case CountDocuments B db of Ok c \<Rightarrow> c | _ \<Rightarrow> - 1)"
    by blast
  let ?entry = "\<lparr>info_name = n, info_type = Type B db, info_collection = CollectionName B db,
                 info_document_count = (case CountDocuments B db of Ok c \<Rightarrow> c | _ \<Rightarrow> - 1)\<rparr>"
  have run: "list_entries B s (n # order) = Ok (?entry # dbList)"
    using n rest(1) by (cases "CountDocuments B db") (simp_all add: Let_def)
  have here: "\<exists>h db. vectorDBs s (info_name ?entry) = Some h \<and> load s h = Some db
        \<and> info_type ?entry = Type B db \<and> info_collection ?entry = CollectionName B db
        \<and> info_document_count ?entry = (case CountDocuments B db of Ok c \<Rightarrow> c | _ \<Rightarrow> - 1)"
    using n by simp
  show ?case
    by (rule exI [of _ "?entry # dbList"]) (use run rest(2,3) here in simp)
qed

text \<open>
  Claim C7. Let \<open>order\<close> list the registered names, each once, and let every handle point
  to an object whose count does not panic. Then \<open>list_databases\<close> returns a value, never an
  error; with a registered instance, the value is a list with one entry per registered
  name, in the order met, giving the name, the type and the collection of the instance
  and its document count, or -1 where counting returned an error. In no state at all does
  the handler return an error.
\<close>

theorem list_databases_tolerates_count_failure:
  assumes enum: "set order = dom (vectorDBs s)" "distinct order"
    and live: "\<forall>n h. vectorDBs s n = Some h \<longrightarrow>
                 (\<exists>db. load s h = Some db \<and> (\<forall>p. CountDocuments B db \<noteq> Panic p))"
  shows "(\<exists>out. handleListDatabases B order s args = (Ok out, s))
       \<and> (order \<noteq> [] \<longrightarrow>
            (\<exists>dbList. handleListDatabases B order s args = (Ok (Databases dbList), s)
               \<and> map info_name dbList = order
               \<and> (\<forall>entry\<in>set dbList. \<exists>h db.
                     vectorDBs s (info_name entry) = Some h \<and> load s h = Some db
                     \<and> info_type entry = Type B db \<and> info_collection entry = CollectionName B db
                     \<and> (\<forall>c. CountDocuments B db = Ok c \<longrightarrow> info_document_count entry = c)
                     \<and> (\<forall>e. CountDocuments B db = Err e \<longrightarrow> info_document_count entry = - 1))))
       \<and> (\<forall>order' s' args' e. fst (handleListDatabases B order' s' args') \<noteq> Err e)"
proof (intro conjI impI allI)
  have "\<forall>n\<in>set order. \<exists>h db. vectorDBs s n = Some h \<and> load s h = Some db
              \<and> (\<forall>p. CountDocuments B db \<noteq> Panic p)"
    using enum(1) live by (metis domD)
  from list_entries_ok [OF this] obtain dbList where l: "list_entries B s order = Ok dbList"
    "map info_name dbList = order"
    "\<forall>entry\<in>set dbList. \<exists>h db.
        vectorDBs s (info_name entry) = Some h \<and> load s h = Some db
        \<and> info_type entry = Type B db \<and> info_collection entry = CollectionName B db
        \<and> info_document_count entry = (case CountDocuments B db of Ok c \<Rightarrow> c | _ \<Rightarrow> - 1)"
    by blast
  from l(1) show "\<exists>out. handleListDatabases B order s args = (Ok out, s)"
    by (simp add: handleListDatabases_def)
  have entries: "\<forall>entry\<in>set dbList. \<exists>h db.
        vectorDBs s (info_name entry) = Some h \<and> load s h = Some db
        \<and> info_type entry = Type B db \<and> info_collection entry = CollectionName B db
        \<and> (\<forall>c. CountDocuments B db = Ok c \<longrightarrow> info_document_count entry = c)
        \<and> (\<forall>e. CountDocuments B db = Err e \<longrightarrow> info_document_count entry = - 1)"
  proof
    fix entry assume "entry \<in> set dbList"
    with l(3) obtain h db where
      "vectorDBs s (info_name entry) = Some h" "load s h = Some db"
      "info_type entry = Type B db" "info_collection entry = CollectionName B db"
      "info_document_count entry = (case CountDocuments B db of Ok c \<Rightarrow> c | _ \<Rightarrow> - 1)"
      by blast
    then show "\<exists>h db.
        vectorDBs s (info_name entry) = Some h \<and> load s h = Some db
        \<and> info_type entry = Type B db \<and> info_collection entry = CollectionName B db
        \<and> (\<forall>c. CountDocuments B db = Ok c \<longrightarrow> info_document_count entry = c)
        \<and> (\<forall>e. CountDocuments B db = Err e \<longrightarrow> info_document_count entry = - 1)"
      by (intro exI [of _ h] exI [of _ db]) simp
  qed
  assume "order \<noteq> []"
  with l(1) have "handleListDatabases B order s args = (Ok (Databases dbList), s)"
    by (simp add: handleListDatabases_def)
  with l(2) entries
  show "\<exists>dbList. handleListDatabases B order s args = (Ok (Databases dbList), s)
               \<and> map info_name dbList = order
               \<and> (\<forall>entry\<in>set dbList. \<exists>h db.
                     vectorDBs s (info_name entry) = Some h \<and> load s h = Some db
                     \<and> info_type entry = Type B db \<and> info_collection entry = CollectionName B db
                     \<and> (\<forall>c. CountDocuments B db = Ok c \<longrightarrow> info_document_count entry = c)
                     \<and> (\<forall>e. CountDocuments B db = Err e \<longrightarrow> info_document_count entry = - 1))"
    by blast
next
  fix order' s' args' e
  show "fst (handleListDatabases B order' s' args') \<noteq> Err e"
    using list_entries_no_error [of B s' order']
    by (auto simp: handleListDatabases_def split: result.splits)
qed

lemma backends_weaviate:
  "Type (backends clk rnd) (WeaviateDB w) = ''weaviate''"
  "CollectionName (backends clk rnd) (WeaviateDB w) = weaviate_collectionName w"
  "CountDocuments (backends clk rnd) (WeaviateDB w) = Ok 0"
  "CollectionName (backends clk rnd) (MilvusDB m) = milvus_collectionName m"
  by (simp_all add: backends_def WeaviateDatabase_CountDocuments_def)

lemma Count_new:
  "MilvusDatabase_CountDocuments milvus_new =
     Err (Wrapped ''failed to count documents in Milvus'' (CollectionMissing ''MaestroDocs''))"
  by (simp add: MilvusDatabase_CountDocuments_def MockMilvusClient_CountDocuments_def
        milvus_new_def NewMockMilvusClient_def)

lemma two_instances_sel:
  "vectorDBs two_instances ''db1'' = Some 0"
  "vectorDBs two_instances ''db2'' = Some 1"
  "load two_instances 0 = Some (MilvusDB milvus_new)"
  "load two_instances (Suc 0) = Some weaviate0"
  by (simp_all add: two_instances_def load_def)

lemma eval_list_two:
  "handleListDatabases backends0 [''db1'', ''db2''] two_instances args =
     (Ok (Databases
        [\<lparr>info_name = ''db1'', info_type = ''milvus'', info_collection = ''MaestroDocs'',
          info_document_count = - 1\<rparr>,
         \<lparr>info_name = ''db2'', info_type = ''weaviate'', info_collection = ''MaestroDocs'',
          info_document_count = 0\<rparr>]), two_instances)"
  by (simp add: handleListDatabases_def two_instances_sel backends0_def backends_milvus
        backends_weaviate Count_new milvus_holding_sel weaviate0_def Let_def)

theorem list_databases_tolerates_count_failure_witness:
  "set [''db1'', ''db2''] = dom (vectorDBs two_instances) \<and> distinct [''db1'', ''db2'']
   \<and> CountDocuments backends0 (MilvusDB milvus_new) =
       Err (Wrapped ''failed to count documents in Milvus'' (CollectionMissing ''MaestroDocs''))
   \<and> (\<exists>out. handleListDatabases backends0 [''db1'', ''db2''] two_instances Map.empty =
          (Ok out, two_instances))
   \<and> handleListDatabases backends0 [''db1'', ''db2''] two_instances Map.empty =
     (Ok (Databases
        [\<lparr>info_name = ''db1'', info_type = ''milvus'', info_collection = ''MaestroDocs'',
          info_document_count = - 1\<rparr>,
         \<lparr>info_name = ''db2'', info_type = ''weaviate'', info_collection = ''MaestroDocs'',
          info_document_count = 0\<rparr>]), two_instances)"
proof -
  have enum: "set [''db1'', ''db2''] = dom (vectorDBs two_instances)" "distinct [''db1'', ''db2'']"
    by (auto simp: two_instances_def split: if_splits)
  have fails: "CountDocuments backends0 (MilvusDB milvus_new) =
       Err (Wrapped ''failed to count documents in Milvus'' (CollectionMissing ''MaestroDocs''))"
    by (simp add: backends0_def backends_milvus Count_new)
  have live: "\<forall>n h. vectorDBs two_instances n = Some h \<longrightarrow>
      (\<exists>db. load two_instances h = Some db \<and> (\<forall>p. CountDocuments backends0 db \<noteq> Panic p))"
    using fails
    by (auto simp: two_instances_def load_def weaviate0_def backends0_def backends_weaviate
             split: if_splits)
  from list_databases_tolerates_count_failure [OF enum live, of Map.empty]
  have "\<exists>out. handleListDatabases backends0 [''db1'', ''db2''] two_instances Map.empty =
          (Ok out, two_instances)"
    by blast
  with enum fails eval_list_two [of Map.empty] show ?thesis by blast
qed

end
